theory Spec2Isabelle
  imports Complex_Main
begin

section \<open>Markdown to DOCX conversion: the retry, validation and metrics core\<close>

text \<open>
  A shallow embedding of \<^verbatim>\<open>quackcore/integrations/pandoc/operations/md_to_docx.py\<close>.
  Every function of that module is a definition of the same name here (a leading
  underscore is dropped). The filesystem facade, the pandoc engine, the clock, the
  python-docx reader and the helpers of \<^verbatim>\<open>operations/utils.py\<close> are not part of
  the module: they are fields of an environment record, so every theorem holds for
  whatever they do.
\<close>

subsection \<open>Python values\<close>

text \<open>
  Exceptions. Only subclasses of \<^verbatim>\<open>Exception\<close> are modelled (the module's handlers are
  \<^verbatim>\<open>except Exception\<close>, \<^verbatim>\<open>except ImportError\<close> and
  \<^verbatim>\<open>except (TypeError, ValueError)\<close>); \<^verbatim>\<open>KeyboardInterrupt\<close> and
  \<^verbatim>\<open>SystemExit\<close> are outside the model.
\<close>

datatype py_class = TypeError | ValueError | OverflowError | ImportError | OtherError

datatype exn =
    QuackIntegrationError string "(string \<times> string) list"
  | PyError py_class string

text \<open>
  Modelled from the spec: \<^verbatim>\<open>QuackIntegrationError\<close> lives in \<^verbatim>\<open>quackcore.errors\<close>, which is
  not among the sources. The spec speaks of "the exception message"; \<^verbatim>\<open>str(e)\<close> is
  taken to be the message the exception was raised with.
\<close>

fun str_exn :: "exn \<Rightarrow> string" where
  "str_exn (QuackIntegrationError message ctx) = message"
| "str_exn (PyError c message) = message"

fun is_QuackIntegrationError :: "exn \<Rightarrow> bool" where
  "is_QuackIntegrationError (QuackIntegrationError message ctx) = True"
| "is_QuackIntegrationError (PyError c message) = False"

fun is_instance :: "py_class list \<Rightarrow> exn \<Rightarrow> bool" where
  "is_instance cs (QuackIntegrationError message ctx) = False"
| "is_instance cs (PyError c message) = (c \<in> set cs)"

text \<open>
  \<^verbatim>\<open>pathlib.Path\<close> on POSIX: a root (\<^verbatim>\<open>''\<close> or \<^verbatim>\<open>'/'\<close>) and the list of
  parts below it. \<^verbatim>\<open>name\<close>, \<^verbatim>\<open>parent\<close> and \<^verbatim>\<open>str\<close> as pathlib defines them.
\<close>

datatype Path = Path string "string list"

fun join :: "string \<Rightarrow> string list \<Rightarrow> string" where
  "join sep [] = []"
| "join sep [x] = x"
| "join sep (x # y # ys) = x @ sep @ join sep (y # ys)"

fun str_path :: "Path \<Rightarrow> string" where
  "str_path (Path anchor parts) =
     (if anchor = [] \<and> parts = [] then ''.'' else anchor @ join ''/'' parts)"

fun path_name :: "Path \<Rightarrow> string" where
  "path_name (Path anchor parts) = (if parts = [] then [] else last parts)"

fun path_parent :: "Path \<Rightarrow> Path" where
  "path_parent (Path anchor parts) = Path anchor (butlast parts)"

text \<open>
  \<^verbatim>\<open>str.strip()\<close> removes leading and trailing characters for which
  \<^verbatim>\<open>str.isspace()\<close> holds. A \<^typ>\<open>char\<close> is a code point below 256; the whitespace
  code points in that range are 9 to 13, 28 to 32, 133 and 160.
\<close>

definition py_isspace :: "char \<Rightarrow> bool" where
  "py_isspace c =
     (let n = (of_char c :: nat)
      in (9 \<le> n \<and> n \<le> 13) \<or> (28 \<le> n \<and> n \<le> 32) \<or> n = 133 \<or> n = 160)"

definition strip :: "string \<Rightarrow> string" where
  "strip s = rev (dropWhile py_isspace (rev (dropWhile py_isspace s)))"

text \<open>\<^verbatim>\<open>sub in s\<close> on strings: \<^verbatim>\<open>sub\<close> occurs in \<^verbatim>\<open>s\<close> as a contiguous run.\<close>

fun py_in :: "string \<Rightarrow> string \<Rightarrow> bool" where
  "py_in sub [] = (sub = [])"
| "py_in sub (c # cs) = (take (length sub) (c # cs) = sub \<or> py_in sub cs)"

text \<open>
  The \<^verbatim>\<open>size\<close> attribute of a file-info result: \<^verbatim>\<open>None\<close>, an \<^verbatim>\<open>int\<close>, or any
  other object, given by what \<^verbatim>\<open>int()\<close> does on it: it yields an integer or raises an
  exception of whatever class (\<^verbatim>\<open>TypeError\<close> for an object that is no number,
  \<^verbatim>\<open>ValueError\<close> for a string that is no numeral or a float that is not a number,
  \<^verbatim>\<open>OverflowError\<close> for an infinite float, anything for an object with its own
  \<^verbatim>\<open>__int__\<close>).
\<close>

datatype size_value = SizeNone | SizeInt int | SizeOther "exn + int"

fun py_int :: "size_value \<Rightarrow> exn + int" where
  "py_int SizeNone = Inl (PyError TypeError ''int() argument must be a string, a bytes-like object or a real number, not NoneType'')"
| "py_int (SizeInt n) = Inr n"
| "py_int (SizeOther outcome) = outcome"

fun str_opt :: "string option \<Rightarrow> string" where
  "str_opt None = ''None''"
| "str_opt (Some s) = s"

subsection \<open>Result and configuration types\<close>

text \<open>
  The result objects of the filesystem service (\<^verbatim>\<open>quackcore.fs\<close>), with the attributes
  the module reads.
\<close>

record OperationResult =
  success :: bool
  error :: "string option"

record FileInfoResult = OperationResult +
  exists :: bool
  file_size :: size_value

record ReadResult = OperationResult +
  content :: string

text \<open>\<^verbatim>\<open>PandocConfig\<close> (\<^verbatim>\<open>pandoc/config.py\<close>), with the fields the module reads.\<close>

record RetryConfig =
  max_conversion_retries :: int
  conversion_retry_delay :: rat

record ValidationConfig =
  min_file_size :: int
  conversion_ratio_threshold :: rat
  verify_structure :: bool
  check_links :: bool

record PandocConfig =
  retry_mechanism :: RetryConfig
  validation :: ValidationConfig
  md_to_docx_extra_args :: "string list"

text \<open>
  \<^verbatim>\<open>ConversionMetrics\<close> and \<^verbatim>\<open>ConversionDetails\<close> (\<^verbatim>\<open>pandoc/models.py\<close>). The
  per-file timing and size samples are kept abstract (\<^typ>\<open>'m\<close>): only
  \<^verbatim>\<open>track_metrics\<close> reads or writes them.
\<close>

record 'm ConversionMetrics =
  successful_conversions :: int
  failed_conversions :: int
  errors :: "string \<rightharpoonup> string"
  samples :: 'm

record ConversionDetails =
  source_format :: string
  target_format :: string
  conversion_time :: rat
  output_size :: int
  input_size :: int

text \<open>
  \<^verbatim>\<open>IntegrationResult\<close> (\<^verbatim>\<open>integrations/core/results.py\<close>), by its two
  constructors: \<^verbatim>\<open>success_result(content, message=...)\<close> and
  \<^verbatim>\<open>error_result(error)\<close>.
\<close>

datatype 'a IntegrationResult = success_result 'a string | error_result string

text \<open>A python-docx document, by the attributes \<^verbatim>\<open>_check_docx_metadata\<close> looks at.\<close>

datatype attr = NoAttr | AttrNone | AttrStr string

record CoreProperties =
  title :: attr
  comments :: attr
  subject :: attr

record DocxDocument =
  core_properties :: "CoreProperties option"

subsection \<open>State, exceptions and the outside world\<close>

text \<open>
  Log records keep the level and the pieces of the f-string, unrendered.
\<close>

datatype level = DEBUG | WARNING | ERROR

datatype piece =
    Lit string
  | ArgPath Path
  | ArgStr string
  | ArgInt int
  | ArgList "string list"
  | ArgSize size_value

text \<open>
  The state a call runs in: the outside world (\<^typ>\<open>'w\<close>: files, engine, clock), the
  metrics object, the local variable \<^verbatim>\<open>retry_count\<close> of
  \<^verbatim>\<open>convert_markdown_to_docx\<close>, the log, and three counters that are not in the source
  and only observe it: how often \<^verbatim>\<open>pypandoc.convert_file\<close> and \<^verbatim>\<open>time.sleep\<close> were
  called and how often \<^verbatim>\<open>_convert_markdown_to_docx_once\<close> was entered.
\<close>

record ('w, 'm) state =
  world :: 'w
  metrics :: "'m ConversionMetrics"
  retry_count :: int
  logged :: "(level \<times> piece list) list"
  engine_calls :: nat
  sleep_calls :: nat
  attempts :: nat

text \<open>
  A computation takes a state and gives back a value or a raised exception, and the
  state it left behind. State changes made before an exception stay, as in Python.
\<close>

type_synonym ('s, 'a) run = "'s \<Rightarrow> (exn + 'a) \<times> 's"

definition return :: "'a \<Rightarrow> ('s, 'a) run" where
  "return x = (\<lambda>s. (Inr x, s))"

definition raise :: "exn \<Rightarrow> ('s, 'a) run" where
  "raise e = (\<lambda>s. (Inl e, s))"

definition bind :: "('s, 'a) run \<Rightarrow> ('a \<Rightarrow> ('s, 'b) run) \<Rightarrow> ('s, 'b) run" where
  "bind m f = (\<lambda>s. case m s of (Inl e, s') \<Rightarrow> (Inl e, s') | (Inr x, s') \<Rightarrow> f x s')"

text \<open>\<^verbatim>\<open>try: m except Exception as e: h e\<close>\<close>

definition try_except :: "('s, 'a) run \<Rightarrow> (exn \<Rightarrow> ('s, 'a) run) \<Rightarrow> ('s, 'a) run" where
  "try_except m h = (\<lambda>s. case m s of (Inl e, s') \<Rightarrow> h e s' | (Inr x, s') \<Rightarrow> (Inr x, s'))"

text \<open>\<^verbatim>\<open>try: m except (C1, C2, ...) : h\<close>: other exceptions pass through.\<close>

definition try_except_classes ::
  "py_class list \<Rightarrow> ('s, 'a) run \<Rightarrow> (exn \<Rightarrow> ('s, 'a) run) \<Rightarrow> ('s, 'a) run" where
  "try_except_classes cs m h =
     (\<lambda>s. case m s of
        (Inl e, s') \<Rightarrow> if is_instance cs e then h e s' else (Inl e, s')
      | (Inr x, s') \<Rightarrow> (Inr x, s'))"

definition lift :: "exn + 'a \<Rightarrow> ('s, 'a) run" where
  "lift r = (\<lambda>s. (r, s))"

text \<open>A call into the outside world: it may raise, and it may change the world.\<close>

definition ext :: "('w \<Rightarrow> (exn + 'a) \<times> 'w) \<Rightarrow> (('w, 'm) state, 'a) run" where
  "ext f = (\<lambda>s. case f (world s) of (r, w) \<Rightarrow> (r, s\<lparr>world := w\<rparr>))"

definition ext_total :: "('w \<Rightarrow> 'a \<times> 'w) \<Rightarrow> (('w, 'm) state, 'a) run" where
  "ext_total f = (\<lambda>s. case f (world s) of (x, w) \<Rightarrow> (Inr x, s\<lparr>world := w\<rparr>))"

definition logger :: "level \<Rightarrow> piece list \<Rightarrow> (('w, 'm) state, unit) run" where
  "logger lv msg = (\<lambda>s. (Inr (), s\<lparr>logged := logged s @ [(lv, msg)]\<rparr>))"

text \<open>
  The environment: what the module imports and calls but does not define.
  \<^item> \<^verbatim>\<open>fs.service.get_file_info\<close>, \<^verbatim>\<open>fs.service.read_text\<close>,
    \<^verbatim>\<open>fs.create_directory\<close>, \<^verbatim>\<open>Path.exists\<close>: the filesystem;
  \<^item> \<^verbatim>\<open>import pypandoc\<close> followed by
    \<^verbatim>\<open>pypandoc.convert_file(source, to, format=..., outputfile=..., extra_args=...)\<close>:
    the engine;
  \<^item> \<^verbatim>\<open>time.time\<close> and \<^verbatim>\<open>time.sleep\<close>: the clock. \<^verbatim>\<open>time.sleep(secs)\<close>
    may raise (\<^verbatim>\<open>ValueError\<close> for a negative length, \<^verbatim>\<open>OverflowError\<close> for one
    that is too large);
  \<^item> \<^verbatim>\<open>importlib.import_module('docx')\<close> and \<^verbatim>\<open>docx.Document\<close>: the optional
    python-docx reader;
  \<^item> \<^verbatim>\<open>prepare_pandoc_args\<close>, \<^verbatim>\<open>validate_docx_structure\<close>, \<^verbatim>\<open>track_metrics\<close>
    and the message texts of \<^verbatim>\<open>check_file_size\<close> and
    \<^verbatim>\<open>check_conversion_ratio\<close>: \<^verbatim>\<open>operations/utils.py\<close>;
  \<^item> the samples of a fresh \<^verbatim>\<open>ConversionMetrics()\<close>.
\<close>

record ('w, 'm) env =
  get_file_info :: "Path \<Rightarrow> 'w \<Rightarrow> (exn + FileInfoResult) \<times> 'w"
  read_text :: "Path \<Rightarrow> 'w \<Rightarrow> (exn + ReadResult) \<times> 'w"
  create_directory :: "Path \<Rightarrow> 'w \<Rightarrow> (exn + OperationResult) \<times> 'w"
  path_exists :: "Path \<Rightarrow> 'w \<Rightarrow> bool \<times> 'w"
  convert_file ::
    "string \<Rightarrow> string \<Rightarrow> string \<Rightarrow> string \<Rightarrow> string list \<Rightarrow> 'w \<Rightarrow> (exn + unit) \<times> 'w"
  time_time :: "'w \<Rightarrow> rat \<times> 'w"
  sleep :: "rat \<Rightarrow> 'w \<Rightarrow> (exn + unit) \<times> 'w"
  import_docx :: "'w \<Rightarrow> (exn + unit) \<times> 'w"
  Document :: "string \<Rightarrow> 'w \<Rightarrow> (exn + DocxDocument) \<times> 'w"
  prepare_pandoc_args :: "PandocConfig \<Rightarrow> string \<Rightarrow> string \<Rightarrow> string list \<Rightarrow> string list"
  validate_docx_structure :: "Path \<Rightarrow> bool \<Rightarrow> 'w \<Rightarrow> (bool \<times> string list) \<times> 'w"
  track :: "string \<Rightarrow> rat \<Rightarrow> int \<Rightarrow> int \<Rightarrow> PandocConfig \<Rightarrow> 'm \<times> 'w \<Rightarrow> (exn + unit) \<times> 'm \<times> 'w"
  size_message :: "int \<Rightarrow> int \<Rightarrow> string"
  ratio_message :: "int \<Rightarrow> int \<Rightarrow> rat \<Rightarrow> string"
  new_samples :: 'm

subsection \<open>Input validation\<close>

text \<open>
  The idiom shared by \<^verbatim>\<open>_validate_markdown_input\<close>, \<^verbatim>\<open>_get_conversion_output\<close> and
  \<^verbatim>\<open>validate_conversion\<close>:
  \<^verbatim>\<open>
  try:
      n = int(info.size) if info.size is not None else 0
  except (TypeError, ValueError):
      logger.warning(f"<what>: {info.size}, using default")
      n = 0
  \<close>
\<close>

definition size_as_int :: "string \<Rightarrow> size_value \<Rightarrow> (('w, 'm) state, int) run" where
  "size_as_int what sz =
     try_except_classes [TypeError, ValueError]
       (if sz \<noteq> SizeNone then lift (py_int sz) else return 0)
       (\<lambda>e. bind (logger WARNING [Lit what, ArgSize sz, Lit '', using default''])
          (\<lambda>_. return 0))"

text \<open>
  What the idiom gives for a size: 0 for \<^verbatim>\<open>None\<close>; the integer when \<^verbatim>\<open>int()\<close>
  yields one; 0 when \<^verbatim>\<open>int()\<close> raises \<^verbatim>\<open>TypeError\<close> or \<^verbatim>\<open>ValueError\<close>; and
  the exception itself when \<^verbatim>\<open>int()\<close> raises anything else, which the
  \<^verbatim>\<open>except\<close> clause does not catch (lemma \<open>size_as_int_value\<close> below).
\<close>

definition size_or_default :: "size_value \<Rightarrow> exn + int" where
  "size_or_default sz =
     (if sz = SizeNone then Inr 0
      else case py_int sz of
             Inr n \<Rightarrow> Inr n
           | Inl e \<Rightarrow> if is_instance [TypeError, ValueError] e then Inr 0 else Inl e)"

definition validate_markdown_input ::
  "('w, 'm) env \<Rightarrow> Path \<Rightarrow> (('w, 'm) state, int) run" where
  "validate_markdown_input env markdown_path =
     bind (ext (get_file_info env markdown_path)) (\<lambda>file_info.
     if \<not> success file_info \<or> \<not> exists file_info then
       raise (QuackIntegrationError
         (''Input file not found: '' @ str_path markdown_path)
         [(''path'', str_path markdown_path), (''format'', ''markdown'')])
     else
     bind (size_as_int ''Could not convert file size to integer: '' (file_size file_info))
       (\<lambda>original_size.
     bind (try_except
       (bind (ext (read_text env markdown_path)) (\<lambda>read_result.
        if \<not> success read_result then
          raise (QuackIntegrationError
            (''Could not read Markdown file: '' @ str_opt (error read_result))
            [(''path'', str_path markdown_path)])
        else
        let markdown_content = content read_result in
        if strip markdown_content = [] then
          raise (QuackIntegrationError
            (''Markdown file is empty: '' @ str_path markdown_path)
            [(''path'', str_path markdown_path)])
        else return ()))
       (\<lambda>e. if is_QuackIntegrationError e then raise e
            else raise (QuackIntegrationError
              (''Could not read Markdown file: '' @ str_exn e)
              [(''path'', str_path markdown_path)])))
       (\<lambda>_. return original_size)))"

subsection \<open>A single conversion attempt\<close>

definition count_attempt :: "(('w, 'm) state, unit) run" where
  "count_attempt = (\<lambda>s. (Inr (), s\<lparr>attempts := attempts s + 1\<rparr>))"

definition count_engine_call :: "(('w, 'm) state, unit) run" where
  "count_engine_call = (\<lambda>s. (Inr (), s\<lparr>engine_calls := engine_calls s + 1\<rparr>))"

definition convert_markdown_to_docx_once ::
  "('w, 'm) env \<Rightarrow> Path \<Rightarrow> Path \<Rightarrow> PandocConfig \<Rightarrow> (('w, 'm) state, unit) run" where
  "convert_markdown_to_docx_once env markdown_path output_path config =
     bind count_attempt (\<lambda>_.
     let extra_args =
       prepare_pandoc_args env config ''markdown'' ''docx'' (md_to_docx_extra_args config) in
     bind (ext (create_directory env (path_parent output_path))) (\<lambda>dir_result.
     if \<not> success dir_result then
       raise (QuackIntegrationError
         (''Failed to create output directory: '' @ str_opt (error dir_result))
         [(''path'', str_path (path_parent output_path)), (''operation'', ''create_directory'')])
     else
     bind (logger DEBUG
       [Lit ''Converting '', ArgPath markdown_path, Lit '' to DOCX with args: '',
        ArgList extra_args]) (\<lambda>_.
     try_except
       (bind count_engine_call (\<lambda>_.
        ext (convert_file env (str_path markdown_path) ''docx'' ''markdown''
          (str_path output_path) extra_args)))
       (\<lambda>e. raise (QuackIntegrationError
          (''Pandoc conversion failed: '' @ str_exn e)
          [(''path'', str_path markdown_path), (''format'', ''markdown'')])))))"

definition get_conversion_output ::
  "('w, 'm) env \<Rightarrow> Path \<Rightarrow> rat \<Rightarrow> (('w, 'm) state, rat \<times> int) run" where
  "get_conversion_output env output_path start_time =
     bind (ext_total (time_time env)) (\<lambda>now.
     let conversion_time = now - start_time in
     bind (ext (get_file_info env output_path)) (\<lambda>output_info.
     if \<not> success output_info then
       raise (QuackIntegrationError
         (''Failed to get info for converted file: '' @ str_path output_path)
         [(''path'', str_path output_path), (''format'', ''docx'')])
     else
     bind (size_as_int ''Could not convert output size to integer: '' (file_size output_info))
       (\<lambda>output_size.
     return (conversion_time, output_size))))"

subsection \<open>Output validation\<close>

text \<open>
  Modelled from the spec: \<^verbatim>\<open>check_file_size\<close> and \<^verbatim>\<open>check_conversion_ratio\<close> are
  defined in \<^verbatim>\<open>operations/utils.py\<close>, which is not among the sources. The spec, section
  4.3: "Minimum size: fails if \<^verbatim>\<open>output_size < min_file_size\<close>" and "Conversion ratio:
  fails if \<^verbatim>\<open>output_size / max(input_size, 1) < conversion_ratio_threshold\<close>". Each returns
  the verdict and its list of messages; the message text is the environment's. The
  ratio and the threshold are Python floats, taken here as rationals.
\<close>

definition check_file_size :: "('w, 'm) env \<Rightarrow> int \<Rightarrow> int \<Rightarrow> bool \<times> string list" where
  "check_file_size env converted_size validation_min_size =
     (if converted_size < validation_min_size
      then (False, [size_message env converted_size validation_min_size])
      else (True, []))"

definition check_conversion_ratio ::
  "('w, 'm) env \<Rightarrow> int \<Rightarrow> int \<Rightarrow> rat \<Rightarrow> bool \<times> string list" where
  "check_conversion_ratio env converted_size original_size threshold =
     (if of_int converted_size / of_int (max original_size 1) < threshold
      then (False, [ratio_message env converted_size original_size threshold])
      else (True, []))"

text \<open>
  \<^verbatim>\<open>hasattr(core_props, a) and core_props.a and source_filename in str(core_props.a)\<close>
\<close>

fun attr_mentions :: "attr \<Rightarrow> string \<Rightarrow> bool" where
  "attr_mentions NoAttr source_filename = False"
| "attr_mentions AttrNone source_filename = False"
| "attr_mentions (AttrStr v) source_filename = (v \<noteq> [] \<and> py_in source_filename v)"

definition check_docx_metadata ::
  "('w, 'm) env \<Rightarrow> Path \<Rightarrow> Path \<Rightarrow> bool \<Rightarrow> (('w, 'm) state, unit) run" where
  "check_docx_metadata env docx_path source_path check_links_arg =
     try_except
       (bind
          (try_except_classes [ImportError]
             (bind (ext (import_docx env)) (\<lambda>_. return True))
             (\<lambda>e. bind (logger DEBUG
                  [Lit ''python-docx not available for detailed metadata check''])
                (\<lambda>_. return False)))
          (\<lambda>imported.
        if \<not> imported then return ()
        else
        bind (ext (Document env (str_path docx_path))) (\<lambda>doc.
        let source_filename = path_name source_path;
            source_found =
              (case core_properties doc of
                 None \<Rightarrow> False
               | Some core_props \<Rightarrow>
                   if attr_mentions (title core_props) source_filename then True
                   else if attr_mentions (comments core_props) source_filename then True
                   else if attr_mentions (subject core_props) source_filename then True
                   else False)
        in
        if \<not> source_found \<and> check_links_arg then
          logger DEBUG
            [Lit ''Source file reference missing in document metadata: '',
             ArgStr source_filename]
        else return ())))
       (\<lambda>e. logger DEBUG [Lit ''Could not check document metadata: '', ArgStr (str_exn e)])"

definition validate_conversion ::
  "('w, 'm) env \<Rightarrow> Path \<Rightarrow> Path \<Rightarrow> int \<Rightarrow> PandocConfig \<Rightarrow> (('w, 'm) state, string list) run" where
  "validate_conversion env output_path input_path original_size config =
     (let validation_errors = [];
          v = validation config in
      bind (ext (get_file_info env output_path)) (\<lambda>output_info.
      if \<not> success output_info \<or> \<not> exists output_info then
        return (validation_errors @ [''Output file does not exist: '' @ str_path output_path])
      else
      bind (size_as_int ''Could not convert output size to integer: '' (file_size output_info))
        (\<lambda>output_size.
      let (valid_size, size_errors) = check_file_size env output_size (min_file_size v);
          validation_errors =
            (if \<not> valid_size then validation_errors @ size_errors else validation_errors);
          (valid_ratio, ratio_errors) =
            check_conversion_ratio env output_size original_size (conversion_ratio_threshold v);
          validation_errors =
            (if \<not> valid_ratio then validation_errors @ ratio_errors else validation_errors)
      in
      if verify_structure v then
        bind (ext_total (path_exists env output_path)) (\<lambda>output_path_exists.
        if output_path_exists then
          bind (ext_total (validate_docx_structure env output_path (check_links v)))
            (\<lambda>(is_valid, structure_errors).
          let validation_errors =
            (if \<not> is_valid then validation_errors @ structure_errors else validation_errors)
          in
          bind (check_docx_metadata env output_path input_path (check_links v)) (\<lambda>_.
          return validation_errors))
        else return validation_errors)
      else return validation_errors)))"

subsection \<open>The retry loop\<close>

text \<open>\<^verbatim>\<open>time.sleep(secs)\<close>, counted.\<close>

definition time_sleep :: "('w, 'm) env \<Rightarrow> rat \<Rightarrow> (('w, 'm) state, unit) run" where
  "time_sleep env secs =
     (\<lambda>s. case sleep env secs (world s) of
        (r, w) \<Rightarrow> (r, s\<lparr>world := w, sleep_calls := sleep_calls s + 1\<rparr>))"

definition update_metrics ::
  "('m ConversionMetrics \<Rightarrow> 'm ConversionMetrics) \<Rightarrow> (('w, 'm) state, unit) run" where
  "update_metrics f = (\<lambda>s. (Inr (), s\<lparr>metrics := f (metrics s)\<rparr>))"

text \<open>
  \<^verbatim>\<open>metrics.failed_conversions += 1; metrics.errors[str(markdown_path)] = message\<close>
\<close>

definition record_failure :: "Path \<Rightarrow> string \<Rightarrow> (('w, 'm) state, unit) run" where
  "record_failure markdown_path message =
     bind (update_metrics (\<lambda>m. m\<lparr>failed_conversions := failed_conversions m + 1\<rparr>)) (\<lambda>_.
     update_metrics (\<lambda>m. m\<lparr>errors := (errors m)(str_path markdown_path \<mapsto> message)\<rparr>))"

text \<open>
  The metrics object after \<^verbatim>\<open>metrics.failed_conversions += 1\<close> and
  \<^verbatim>\<open>metrics.errors[str(markdown_path)] = message\<close>.
\<close>

definition failure_recorded ::
  "Path \<Rightarrow> string \<Rightarrow> 'm ConversionMetrics \<Rightarrow> 'm ConversionMetrics" where
  "failure_recorded markdown_path message m =
     m\<lparr>failed_conversions := failed_conversions m + 1,
       errors := (errors m)(str_path markdown_path \<mapsto> message)\<rparr>"

text \<open>\<^verbatim>\<open>retry_count += 1\<close>, giving the new value.\<close>

definition increment_retry_count :: "(('w, 'm) state, int) run" where
  "increment_retry_count =
     (\<lambda>s. (Inr (retry_count s + 1), s\<lparr>retry_count := retry_count s + 1\<rparr>))"

text \<open>
  Modelled from the spec:
  \<^verbatim>\<open>track_metrics(filename, start_time, original_size, output_size, metrics, config)\<close>
  is defined in \<^verbatim>\<open>operations/utils.py\<close>, which is not among the sources. By the
  spec it records the elapsed time and the input and output sizes as a per-file sample of
  the metrics object; what it records, and whether it raises, is the environment's. It
  does not touch the two counters or the error mapping.
\<close>

definition track_metrics ::
  "('w, 'm) env \<Rightarrow> string \<Rightarrow> rat \<Rightarrow> int \<Rightarrow> int \<Rightarrow> PandocConfig \<Rightarrow> (('w, 'm) state, unit) run" where
  "track_metrics env filename start_time original_size converted_size config =
     (\<lambda>s. case track env filename start_time original_size converted_size config
                (samples (metrics s), world s) of
        (r, m, w) \<Rightarrow> (r, s\<lparr>world := w, metrics := (metrics s)\<lparr>samples := m\<rparr>\<rparr>))"

text \<open>
  The body of the \<^verbatim>\<open>try\<close> inside the loop (lines 194 to 238). Its value says how
  the iteration ends: \<^term>\<open>Some r\<close> is \<^verbatim>\<open>return r\<close>, \<^term>\<open>None\<close> is
  \<^verbatim>\<open>continue\<close>.
\<close>

definition attempt_body ::
  "('w, 'm) env \<Rightarrow> Path \<Rightarrow> Path \<Rightarrow> PandocConfig \<Rightarrow> string \<Rightarrow> int \<Rightarrow> int \<Rightarrow> rat \<Rightarrow>
   (('w, 'm) state, (Path \<times> ConversionDetails) IntegrationResult option) run" where
  "attempt_body env markdown_path output_path config filename original_size max_retries
       start_time =
     bind (convert_markdown_to_docx_once env markdown_path output_path config) (\<lambda>_.
     bind (get_conversion_output env output_path start_time) (\<lambda>(conversion_time, output_size).
     bind (validate_conversion env output_path markdown_path original_size config)
       (\<lambda>validation_errors.
     if validation_errors \<noteq> [] then
       let error_str = join ''; '' validation_errors in
       bind (logger ERROR [Lit ''Conversion validation failed: '', ArgStr error_str]) (\<lambda>_.
       bind increment_retry_count (\<lambda>retry_count.
       if retry_count \<ge> max_retries then
         bind (record_failure markdown_path error_str) (\<lambda>_.
         return (Some (error_result
           (''Conversion failed after maximum retries: '' @ error_str))))
       else
         bind (logger WARNING
           [Lit ''Markdown to DOCX conversion attempt '', ArgInt retry_count,
            Lit '' failed: '', ArgStr error_str]) (\<lambda>_.
         bind (time_sleep env (conversion_retry_delay (retry_mechanism config))) (\<lambda>_.
         return None))))
     else
       bind (track_metrics env filename start_time original_size output_size config) (\<lambda>_.
       bind (update_metrics
         (\<lambda>m. m\<lparr>successful_conversions := successful_conversions m + 1\<rparr>)) (\<lambda>_.
       let details =
         \<lparr>source_format = ''markdown'', target_format = ''docx'',
          conversion_time = conversion_time, output_size = output_size,
          input_size = original_size\<rparr>
       in
       return (Some (success_result (output_path, details)
         (''Successfully converted '' @ str_path markdown_path @ '' to DOCX''))))))))"

text \<open>The \<^verbatim>\<open>except Exception as e\<close> of the loop (lines 240 to 256).\<close>

definition attempt_handler ::
  "('w, 'm) env \<Rightarrow> Path \<Rightarrow> PandocConfig \<Rightarrow> int \<Rightarrow> exn \<Rightarrow>
   (('w, 'm) state, (Path \<times> ConversionDetails) IntegrationResult option) run" where
  "attempt_handler env markdown_path config max_retries e =
     bind increment_retry_count (\<lambda>retry_count.
     bind (logger WARNING
       [Lit ''Markdown to DOCX conversion attempt '', ArgInt retry_count,
        Lit '' failed: '', ArgStr (str_exn e)]) (\<lambda>_.
     if retry_count \<ge> max_retries then
       bind (record_failure markdown_path (str_exn e)) (\<lambda>_.
       let error_msg =
         (if is_QuackIntegrationError e then ''Integration error: '' @ str_exn e
          else ''Failed to convert Markdown to DOCX: '' @ str_exn e)
       in
       return (Some (error_result error_msg)))
     else
       bind (time_sleep env (conversion_retry_delay (retry_mechanism config))) (\<lambda>_.
       return None)))"

text \<open>One iteration of the \<^verbatim>\<open>while\<close> loop (lines 192 to 256).\<close>

definition attempt ::
  "('w, 'm) env \<Rightarrow> Path \<Rightarrow> Path \<Rightarrow> PandocConfig \<Rightarrow> string \<Rightarrow> int \<Rightarrow> int \<Rightarrow>
   (('w, 'm) state, (Path \<times> ConversionDetails) IntegrationResult option) run" where
  "attempt env markdown_path output_path config filename original_size max_retries =
     bind (ext_total (time_time env)) (\<lambda>start_time.
     try_except
       (attempt_body env markdown_path output_path config filename original_size max_retries
          start_time)
       (attempt_handler env markdown_path config max_retries))"

subsection \<open>What one iteration does to the state\<close>

text \<open>
  The loop below terminates because every iteration that does not return raises
  \<^verbatim>\<open>retry_count\<close>. The lemmas of this subsection establish that, and the effect of
  one iteration on the metrics and the counters. A computation is \<open>quiet\<close> when it
  leaves everything but the world and the log as it was.
\<close>

definition unchanged :: "('w, 'm) state \<Rightarrow> ('w, 'm) state \<Rightarrow> bool" where
  "unchanged s s' \<longleftrightarrow>
     metrics s' = metrics s \<and> retry_count s' = retry_count s \<and>
     engine_calls s' = engine_calls s \<and> sleep_calls s' = sleep_calls s \<and>
     attempts s' = attempts s"

definition quiet :: "(('w, 'm) state, 'a) run \<Rightarrow> bool" where
  "quiet m \<longleftrightarrow> (\<forall>s r s'. m s = (r, s') \<longrightarrow> unchanged s s')"

lemma unchanged_refl: "unchanged s s"
  by (simp add: unchanged_def)

lemma unchanged_trans: "unchanged s t \<Longrightarrow> unchanged t u \<Longrightarrow> unchanged s u"
  by (simp add: unchanged_def)

lemma quiet_return: "quiet (return x)"
  by (simp add: quiet_def return_def unchanged_def)

lemma quiet_raise: "quiet (raise e)"
  by (simp add: quiet_def raise_def unchanged_def)

lemma quiet_lift: "quiet (lift r)"
  by (simp add: quiet_def lift_def unchanged_def)

lemma quiet_ext: "quiet (ext f)"
  by (auto simp: quiet_def ext_def unchanged_def split: prod.splits)

lemma quiet_ext_total: "quiet (ext_total f)"
  by (auto simp: quiet_def ext_total_def unchanged_def split: prod.splits)

lemma quiet_logger: "quiet (logger lv msg)"
  by (auto simp: quiet_def logger_def unchanged_def)

lemma quiet_bind: "quiet m \<Longrightarrow> (\<And>x. quiet (f x)) \<Longrightarrow> quiet (bind m f)"
  unfolding quiet_def bind_def
  by (auto split: prod.splits sum.splits) (blast intro: unchanged_trans)+

lemma quiet_try_except: "quiet m \<Longrightarrow> (\<And>e. quiet (h e)) \<Longrightarrow> quiet (try_except m h)"
  unfolding quiet_def try_except_def
  by (auto split: prod.splits sum.splits) (blast intro: unchanged_trans)+

lemma quiet_try_except_classes:
  "quiet m \<Longrightarrow> (\<And>e. quiet (h e)) \<Longrightarrow> quiet (try_except_classes cs m h)"
  unfolding quiet_def try_except_classes_def
  by (auto split: prod.splits sum.splits if_splits) (blast intro: unchanged_trans)+

lemma quiet_if: "(c \<Longrightarrow> quiet a) \<Longrightarrow> (\<not> c \<Longrightarrow> quiet b) \<Longrightarrow> quiet (if c then a else b)"
  by simp

lemma quiet_case_prod: "(\<And>a b. quiet (f a b)) \<Longrightarrow> quiet (case p of (a, b) \<Rightarrow> f a b)"
  by (cases p) simp

lemmas quiet_rules = quiet_return quiet_raise quiet_lift quiet_ext quiet_ext_total quiet_logger
  quiet_bind quiet_try_except quiet_try_except_classes quiet_if quiet_case_prod

lemma quiet_size_as_int: "quiet (size_as_int what sz)"
  unfolding size_as_int_def by (intro quiet_rules)

lemma quiet_validate_markdown_input: "quiet (validate_markdown_input env markdown_path)"
  unfolding validate_markdown_input_def Let_def by (intro quiet_rules quiet_size_as_int)

lemma quiet_get_conversion_output: "quiet (get_conversion_output env output_path start_time)"
  unfolding get_conversion_output_def Let_def by (intro quiet_rules quiet_size_as_int)

lemma quiet_check_docx_metadata: "quiet (check_docx_metadata env docx_path source_path cl)"
  unfolding check_docx_metadata_def Let_def by (intro quiet_rules)

lemma quiet_validate_conversion:
  "quiet (validate_conversion env output_path input_path original_size config)"
  unfolding validate_conversion_def Let_def
  by (intro quiet_rules quiet_size_as_int quiet_check_docx_metadata)

lemma return_apply: "return x s = (Inr x, s)" by (simp add: return_def)
lemma raise_apply: "raise e s = (Inl e, s)" by (simp add: raise_def)
lemma logger_apply: "logger lv msg s = (Inr (), s\<lparr>logged := logged s @ [(lv, msg)]\<rparr>)"
  by (simp add: logger_def)
lemma update_metrics_apply: "update_metrics f s = (Inr (), s\<lparr>metrics := f (metrics s)\<rparr>)"
  by (simp add: update_metrics_def)
lemma increment_retry_count_apply:
  "increment_retry_count s = (Inr (retry_count s + 1), s\<lparr>retry_count := retry_count s + 1\<rparr>)"
  by (simp add: increment_retry_count_def)
lemma count_attempt_apply: "count_attempt s = (Inr (), s\<lparr>attempts := attempts s + 1\<rparr>)"
  by (simp add: count_attempt_def)
lemma count_engine_call_apply:
  "count_engine_call s = (Inr (), s\<lparr>engine_calls := engine_calls s + 1\<rparr>)"
  by (simp add: count_engine_call_def)

lemmas apply_simps = return_apply raise_apply logger_apply update_metrics_apply
  increment_retry_count_apply count_attempt_apply count_engine_call_apply

lemma bindE:
  assumes "bind m f s = (r, s')"
  obtains (raised) e where "m s = (Inl e, s')" "r = Inl e"
        | (returned) x s1 where "m s = (Inr x, s1)" "f x s1 = (r, s')"
  using assms by (auto simp: bind_def split: prod.splits sum.splits)

lemma try_exceptE:
  assumes "try_except m h s = (r, s')"
  obtains (caught) e s1 where "m s = (Inl e, s1)" "h e s1 = (r, s')"
        | (returned) x where "m s = (Inr x, s')" "r = Inr x"
  using assms by (auto simp: try_except_def split: prod.splits sum.splits)

lemma quietD: "quiet m \<Longrightarrow> m s = (r, s') \<Longrightarrow> unchanged s s'"
  by (simp add: quiet_def)

lemma ext_unchanged: "ext f s = (r, s') \<Longrightarrow> unchanged s s'"
  using quiet_ext by (rule quietD)

lemma ext_total_unchanged: "ext_total f s = (r, s') \<Longrightarrow> unchanged s s'"
  using quiet_ext_total by (rule quietD)

lemma ext_total_returns: "ext_total f s = (r, s') \<Longrightarrow> \<exists>x. r = Inr x"
  by (auto simp: ext_total_def split: prod.splits)

text \<open>\<^verbatim>\<open>time.sleep(secs)\<close> returns, in whatever world it is called.\<close>

definition sleep_returns :: "('w, 'm) env \<Rightarrow> rat \<Rightarrow> bool" where
  "sleep_returns env secs \<longleftrightarrow> (\<forall>w. fst (sleep env secs w) = Inr ())"

lemma time_sleep_cases:
  assumes "time_sleep env secs s = (r, s')"
  shows "sleep_calls s' = sleep_calls s + 1 \<and> metrics s' = metrics s \<and>
         retry_count s' = retry_count s \<and> engine_calls s' = engine_calls s \<and>
         attempts s' = attempts s \<and> r = fst (sleep env secs (world s)) \<and>
         (sleep_returns env secs \<longrightarrow> r = Inr ())"
  using assms
  by (auto simp: time_sleep_def sleep_returns_def split: prod.splits) (metis fst_conv)

lemma once_frame:
  assumes "convert_markdown_to_docx_once env markdown_path output_path config s = (r, s')"
  shows "metrics s' = metrics s \<and> retry_count s' = retry_count s \<and>
         sleep_calls s' = sleep_calls s \<and> attempts s' = attempts s + 1 \<and>
         engine_calls s \<le> engine_calls s' \<and> engine_calls s' \<le> engine_calls s + 1"
  using assms unfolding convert_markdown_to_docx_once_def Let_def
  by (auto simp: apply_simps unchanged_def elim!: bindE try_exceptE dest!: ext_unchanged
      split: if_splits)

lemma record_failure_apply:
  "record_failure markdown_path message s =
     (Inr (), s\<lparr>metrics := (metrics s)\<lparr>failed_conversions := failed_conversions (metrics s) + 1,
                errors := (errors (metrics s))(str_path markdown_path \<mapsto> message)\<rparr>\<rparr>)"
  by (simp add: record_failure_def bind_def update_metrics_def)

lemma handler_cases:
  assumes "attempt_handler env markdown_path config max_retries e s = (r, s')"
  shows "retry_count s' = retry_count s + 1 \<and> attempts s' = attempts s \<and>
         engine_calls s' = engine_calls s \<and>
         (if max_retries \<le> retry_count s + 1 then
            r = Inr (Some (error_result
                  ((if is_QuackIntegrationError e then ''Integration error: ''
                    else ''Failed to convert Markdown to DOCX: '') @ str_exn e))) \<and>
            sleep_calls s' = sleep_calls s \<and>
            metrics s' = failure_recorded markdown_path (str_exn e) (metrics s)
          else
            r = (case fst (sleep env (conversion_retry_delay (retry_mechanism config)) (world s))
                 of Inl e' \<Rightarrow> Inl e' | Inr u \<Rightarrow> Inr None) \<and>
            sleep_calls s' = sleep_calls s + 1 \<and> metrics s' = metrics s)"
proof (cases "max_retries \<le> retry_count s + 1")
  case True
  with assms show ?thesis
    by (auto simp: attempt_handler_def Let_def bind_def increment_retry_count_def logger_def
        record_failure_def update_metrics_def return_def failure_recorded_def)
next
  case False
  obtain q w where sl: "sleep env (conversion_retry_delay (retry_mechanism config)) (world s)
      = (q, w)"
    by (cases "sleep env (conversion_retry_delay (retry_mechanism config)) (world s)")
  from False assms sl show ?thesis
    by (cases q)
      (auto simp: attempt_handler_def Let_def bind_def increment_retry_count_def logger_def
        time_sleep_def return_def)
qed

lemma track_metrics_cases:
  assumes "track_metrics env filename start_time original_size converted_size config s = (r, s')"
  shows "successful_conversions (metrics s') = successful_conversions (metrics s) \<and>
         failed_conversions (metrics s') = failed_conversions (metrics s) \<and>
         errors (metrics s') = errors (metrics s) \<and> retry_count s' = retry_count s \<and>
         engine_calls s' = engine_calls s \<and> sleep_calls s' = sleep_calls s \<and>
         attempts s' = attempts s"
  using assms by (auto simp: track_metrics_def split: prod.splits)

lemmas helper_frames =
  quietD [OF quiet_get_conversion_output] quietD [OF quiet_validate_conversion]

lemma body_cases:
  assumes "attempt_body env markdown_path output_path config filename original_size max_retries
             start_time s = (r, s')"
  shows "attempts s' = attempts s + 1 \<and> engine_calls s \<le> engine_calls s' \<and>
         engine_calls s' \<le> engine_calls s + 1 \<and>
         successful_conversions (metrics s') = successful_conversions (metrics s) +
           (case r of Inr (Some (success_result c m)) \<Rightarrow> 1 | _ \<Rightarrow> 0) \<and>
         (case r of
            Inr (Some (success_result c m)) \<Rightarrow>
              retry_count s' = retry_count s \<and> sleep_calls s' = sleep_calls s \<and>
              failed_conversions (metrics s') = failed_conversions (metrics s) \<and>
              errors (metrics s') = errors (metrics s)
          | Inr (Some (error_result m)) \<Rightarrow>
              retry_count s' = retry_count s + 1 \<and> max_retries \<le> retry_count s' \<and>
              sleep_calls s' = sleep_calls s \<and>
              failed_conversions (metrics s') = failed_conversions (metrics s) + 1 \<and>
              (\<exists>error_str. m = ''Conversion failed after maximum retries: '' @ error_str \<and>
                 errors (metrics s') = (errors (metrics s))(str_path markdown_path \<mapsto> error_str))
          | Inr None \<Rightarrow>
              retry_count s' = retry_count s + 1 \<and> retry_count s' < max_retries \<and>
              sleep_calls s' = sleep_calls s + 1 \<and> metrics s' = metrics s
          | Inl e \<Rightarrow>
              failed_conversions (metrics s') = failed_conversions (metrics s) \<and>
              errors (metrics s') = errors (metrics s) \<and>
              (retry_count s' = retry_count s \<and> sleep_calls s' = sleep_calls s \<or>
               retry_count s' = retry_count s + 1 \<and> retry_count s' < max_retries \<and>
               sleep_calls s' = sleep_calls s + 1 \<and>
               \<not> sleep_returns env (conversion_retry_delay (retry_mechanism config))))"
  using assms unfolding attempt_body_def Let_def
  by (auto dest!: once_frame helper_frames track_metrics_cases time_sleep_cases
      simp: unchanged_def apply_simps record_failure_apply
      elim!: bindE split: prod.splits if_splits)

lemma attempt_cases:
  assumes "attempt env markdown_path output_path config filename original_size max_retries s
             = (r, s')"
  shows "attempts s' = attempts s + 1 \<and> engine_calls s \<le> engine_calls s' \<and>
         engine_calls s' \<le> engine_calls s + 1 \<and>
         successful_conversions (metrics s') = successful_conversions (metrics s) +
           (case r of Inr (Some (success_result c m)) \<Rightarrow> 1 | _ \<Rightarrow> 0) \<and>
         (case r of
            Inr (Some (success_result c m)) \<Rightarrow>
              retry_count s' = retry_count s \<and> sleep_calls s' = sleep_calls s \<and>
              failed_conversions (metrics s') = failed_conversions (metrics s) \<and>
              errors (metrics s') = errors (metrics s)
          | Inr (Some (error_result m)) \<Rightarrow>
              max_retries \<le> retry_count s' \<and>
              (sleep_returns env (conversion_retry_delay (retry_mechanism config))
                 \<longrightarrow> sleep_calls s' = sleep_calls s) \<and>
              failed_conversions (metrics s') = failed_conversions (metrics s) + 1 \<and>
              (\<exists>msg. errors (metrics s') = (errors (metrics s))(str_path markdown_path \<mapsto> msg) \<and>
                 m \<in> {''Conversion failed after maximum retries: '' @ msg,
                      ''Integration error: '' @ msg,
                      ''Failed to convert Markdown to DOCX: '' @ msg})
          | Inr None \<Rightarrow>
              retry_count s < retry_count s' \<and> retry_count s' < max_retries \<and>
              failed_conversions (metrics s') = failed_conversions (metrics s) \<and>
              errors (metrics s') = errors (metrics s) \<and>
              (sleep_returns env (conversion_retry_delay (retry_mechanism config))
                 \<longrightarrow> retry_count s' = retry_count s + 1 \<and>
                     sleep_calls s' = sleep_calls s + 1)
          | Inl e \<Rightarrow>
              failed_conversions (metrics s') = failed_conversions (metrics s) \<and>
              errors (metrics s') = errors (metrics s) \<and>
              \<not> sleep_returns env (conversion_retry_delay (retry_mechanism config)))"
proof -
  from assms obtain start_time s0 where
    clock: "ext_total (time_time env) s = (Inr start_time, s0)" and
    run: "try_except
            (attempt_body env markdown_path output_path config filename original_size
               max_retries start_time)
            (attempt_handler env markdown_path config max_retries) s0 = (r, s')"
    unfolding attempt_def by (auto elim!: bindE dest: ext_total_returns)
  from clock have s0: "unchanged s s0" by (rule ext_total_unchanged)
  from run show ?thesis
  proof (cases rule: try_exceptE)
    case (caught e s1)
    have sl: "\<And>w x. sleep_returns env (conversion_retry_delay (retry_mechanism config)) \<Longrightarrow>
        fst (sleep env (conversion_retry_delay (retry_mechanism config)) w) = Inl x \<Longrightarrow> False"
      by (simp add: sleep_returns_def)
    from body_cases [OF caught(1)] handler_cases [OF caught(2)] s0 show ?thesis
      by (auto simp: unchanged_def failure_recorded_def dest: sl
          split: sum.splits option.splits IntegrationResult.splits if_splits)
  next
    case (returned x)
    from body_cases [OF returned(1)] s0 returned(2) show ?thesis
      by (auto simp: unchanged_def split: sum.splits option.splits IntegrationResult.splits)
  qed
qed

lemma attempt_continue:
  "attempt env markdown_path output_path config filename original_size max_retries s
     = (Inr None, s') \<Longrightarrow> retry_count s < retry_count s'"
  by (drule attempt_cases) simp

subsection \<open>The orchestrator\<close>

text \<open>
  The \<^verbatim>\<open>while retry_count < max_retries\<close> loop of \<^verbatim>\<open>convert_markdown_to_docx\<close>
  (lines 191 to 258), with the \<^verbatim>\<open>return\<close> after it.
\<close>

function retry_loop ::
  "('w, 'm) env \<Rightarrow> Path \<Rightarrow> Path \<Rightarrow> PandocConfig \<Rightarrow> string \<Rightarrow> int \<Rightarrow> int \<Rightarrow>
   (('w, 'm) state, (Path \<times> ConversionDetails) IntegrationResult) run" where
  "retry_loop env markdown_path output_path config filename original_size max_retries s =
     (if retry_count s < max_retries then
        (case attempt env markdown_path output_path config filename original_size max_retries s
         of (Inl e, s') \<Rightarrow> (Inl e, s')
          | (Inr (Some r), s') \<Rightarrow> (Inr r, s')
          | (Inr None, s') \<Rightarrow>
              retry_loop env markdown_path output_path config filename original_size
                max_retries s')
      else (Inr (error_result ''Conversion failed after maximum retries''), s))"
  by pat_completeness auto
termination
proof (relation "measure (\<lambda>(env, markdown_path, output_path, config, filename, original_size,
    max_retries, s). nat (max_retries - retry_count s))")
  show "wf (measure (\<lambda>(env :: ('w, 'm) env, markdown_path :: Path, output_path :: Path,
    config :: PandocConfig, filename :: string, original_size :: int, max_retries :: int,
    s :: ('w, 'm) state). nat (max_retries - retry_count s)))"
    by simp
next
  fix env :: "('w, 'm) env" and markdown_path output_path config filename original_size
    max_retries and s :: "('w, 'm) state" and x s' y
  assume "retry_count s < max_retries"
    and "(x, s') = attempt env markdown_path output_path config filename original_size
           max_retries s"
    and "x = Inr y" and "y = None"
  then have "retry_count s < retry_count s'"
    using attempt_continue [of env markdown_path output_path config filename original_size
        max_retries s s'] by simp
  with \<open>retry_count s < max_retries\<close>
  show "((env, markdown_path, output_path, config, filename, original_size, max_retries, s'),
         (env, markdown_path, output_path, config, filename, original_size, max_retries, s))
        \<in> measure (\<lambda>(env, markdown_path, output_path, config, filename, original_size,
             max_retries, s). nat (max_retries - retry_count s))"
    by simp
qed

text \<open>
  Modelled from the spec: \<^verbatim>\<open>ConversionMetrics()\<close> (\<^verbatim>\<open>pandoc/models.py\<close>, not among
  the sources) is a metrics object with both counters at zero and no errors.
\<close>

definition new_metrics :: "('w, 'm) env \<Rightarrow> 'm ConversionMetrics" where
  "new_metrics env =
     \<lparr>successful_conversions = 0, failed_conversions = 0, errors = Map.empty,
      samples = new_samples env\<rparr>"

text \<open>
  \<^verbatim>\<open>if metrics is None: metrics = ConversionMetrics()\<close> (lines 183 and 184): the
  metrics object the call works on.
\<close>

definition metrics_object ::
  "('w, 'm) env \<Rightarrow> 'm ConversionMetrics option \<Rightarrow> 'm ConversionMetrics" where
  "metrics_object env metrics_arg =
     (case metrics_arg of None \<Rightarrow> new_metrics env | Some m \<Rightarrow> m)"

text \<open>The state a call starts in: nothing logged, nothing counted.\<close>

definition initial_state :: "'w \<Rightarrow> 'm ConversionMetrics \<Rightarrow> ('w, 'm) state" where
  "initial_state w m =
     \<lparr>world = w, metrics = m, retry_count = 0, logged = [], engine_calls = 0,
      sleep_calls = 0, attempts = 0\<rparr>"

definition assign_retry_count :: "int \<Rightarrow> (('w, 'm) state, unit) run" where
  "assign_retry_count n = (\<lambda>s. (Inr (), s\<lparr>retry_count := n\<rparr>))"

text \<open>
  \<^verbatim>\<open>convert_markdown_to_docx(markdown_path, output_path, config, metrics)\<close>, run in the
  world \<open>w\<close>. It gives the value returned or the exception raised, and the final state:
  the metrics object, the world and the counters.
\<close>

definition convert_markdown_to_docx ::
  "('w, 'm) env \<Rightarrow> Path \<Rightarrow> Path \<Rightarrow> PandocConfig \<Rightarrow> 'm ConversionMetrics option \<Rightarrow> 'w \<Rightarrow>
   (exn + (Path \<times> ConversionDetails) IntegrationResult) \<times> ('w, 'm) state" where
  "convert_markdown_to_docx env markdown_path output_path config metrics_arg w =
     (let filename = path_name markdown_path;
          metrics_obj = metrics_object env metrics_arg
      in
      try_except
        (bind (validate_markdown_input env markdown_path) (\<lambda>original_size.
         let max_retries = max_conversion_retries (retry_mechanism config) in
         bind (assign_retry_count 0) (\<lambda>_.
         retry_loop env markdown_path output_path config filename original_size max_retries)))
        (\<lambda>e.
         bind (record_failure markdown_path (str_exn e)) (\<lambda>_.
         return (error_result (''Failed to convert Markdown to DOCX: '' @ str_exn e))))
        (initial_state w metrics_obj))"

subsection \<open>Concrete environments\<close>

text \<open>
  Environments for the scenarios of the spec (section 8): one input file, one output
  file, an engine scripted by the outcomes of its calls in turn (it succeeds once the
  script is used up). The world is the number of engine calls made so far.
  \<^verbatim>\<open>time.sleep\<close> is CPython's: it raises \<^verbatim>\<open>ValueError\<close> for a negative length and
  \<^verbatim>\<open>OverflowError\<close> for one beyond what a signed 64-bit count of nanoseconds holds.
\<close>

record scenario =
  sc_input_info :: FileInfoResult
  sc_input_text :: "exn + ReadResult"
  sc_directory :: OperationResult
  sc_engine :: "(exn + unit) list"
  sc_output_info :: FileInfoResult
  sc_on_disk :: bool
  sc_structure :: "bool \<times> string list"
  sc_python_docx :: "(exn + DocxDocument) option"

definition notes_md :: Path where
  "notes_md = Path ''/'' [''docs'', ''notes.md'']"

definition notes_docx :: Path where
  "notes_docx = Path ''/'' [''out'', ''notes.docx'']"

definition scenario_env :: "scenario \<Rightarrow> (nat, nat) env" where
  "scenario_env sc =
     \<lparr>get_file_info =
        (\<lambda>p w. (Inr (if p = notes_docx then sc_output_info sc else sc_input_info sc), w)),
      read_text = (\<lambda>p w. (sc_input_text sc, w)),
      create_directory = (\<lambda>p w. (Inr (sc_directory sc), w)),
      path_exists = (\<lambda>p w. (sc_on_disk sc, w)),
      convert_file =
        (\<lambda>source to fmt outputfile extra_args w.
           (if w < length (sc_engine sc) then sc_engine sc ! w else Inr (), w + 1)),
      time_time = (\<lambda>w. (0, w)),
      sleep =
        (\<lambda>secs w.
           (if secs < 0 then Inl (PyError ValueError ''sleep length must be non-negative'')
            else if 9223372036854775807 / 1000000000 < secs
            then Inl (PyError OverflowError ''timestamp too large to convert to C _PyTime_t'')
            else Inr (), w)),
      import_docx =
        (\<lambda>w. (case sc_python_docx sc of
                 None \<Rightarrow> Inl (PyError ImportError ''No module named docx'')
               | Some d \<Rightarrow> Inr (), w)),
      Document =
        (\<lambda>p w. (case sc_python_docx sc of
                 None \<Rightarrow> Inl (PyError OtherError ''no Document'')
               | Some d \<Rightarrow> d, w)),
      prepare_pandoc_args = (\<lambda>config source_format target_format extra_args. extra_args),
      validate_docx_structure = (\<lambda>p links w. (sc_structure sc, w)),
      track =
        (\<lambda>filename start_time original_size converted_size config (m, w). (Inr (), m + 1, w)),
      size_message = (\<lambda>converted_size min_size. ''Converted file is below the minimum size''),
      ratio_message =
        (\<lambda>converted_size original_size threshold. ''Conversion ratio is below the threshold''),
      new_samples = 0\<rparr>"

definition file_of_size :: "size_value \<Rightarrow> FileInfoResult" where
  "file_of_size sz = \<lparr>success = True, error = None, exists = True, file_size = sz\<rparr>"

definition missing_file :: FileInfoResult where
  "missing_file = \<lparr>success = True, error = None, exists = False, file_size = SizeNone\<rparr>"

definition text_of :: "string \<Rightarrow> exn + ReadResult" where
  "text_of s = Inr \<lparr>success = True, error = None, content = s\<rparr>"

definition scenario_A :: scenario where
  "scenario_A =
     \<lparr>sc_input_info = file_of_size (SizeInt 500),
      sc_input_text = text_of ''# Notes'',
      sc_directory = \<lparr>success = True, error = None\<rparr>,
      sc_engine = [],
      sc_output_info = file_of_size (SizeInt 400),
      sc_on_disk = True,
      sc_structure = (True, []),
      sc_python_docx = None\<rparr>"

definition scenario_config :: "int \<Rightarrow> bool \<Rightarrow> PandocConfig" where
  "scenario_config max_retries verify =
     \<lparr>retry_mechanism = \<lparr>max_conversion_retries = max_retries, conversion_retry_delay = 1\<rparr>,
      validation = \<lparr>min_file_size = 100, conversion_ratio_threshold = 1 / 2,
        verify_structure = verify, check_links = True\<rparr>,
      md_to_docx_extra_args = []\<rparr>"

definition no_metrics :: "nat ConversionMetrics" where
  "no_metrics =
     \<lparr>successful_conversions = 0, failed_conversions = 0, errors = Map.empty, samples = 0\<rparr>"

definition scenario_B :: scenario where
  "scenario_B = scenario_A\<lparr>sc_output_info := file_of_size (SizeInt 10)\<rparr>"

text \<open>
  The size \<^verbatim>\<open>float('inf')\<close>, on which \<^verbatim>\<open>int()\<close> raises \<^verbatim>\<open>OverflowError\<close>, and a size
  on which it raises \<^verbatim>\<open>TypeError\<close>.
\<close>

definition infinite_size :: size_value where
  "infinite_size =
     SizeOther (Inl (PyError OverflowError ''cannot convert float infinity to integer''))"

definition object_size :: size_value where
  "object_size =
     SizeOther (Inl (PyError TypeError
       ''int() argument must be a string, a bytes-like object or a real number, not object''))"

text \<open>A configuration with a delay too long for \<^verbatim>\<open>time.sleep\<close>.\<close>

definition long_delay_config :: "int \<Rightarrow> PandocConfig" where
  "long_delay_config max_retries =
     (scenario_config max_retries True)\<lparr>retry_mechanism :=
        \<lparr>max_conversion_retries = max_retries,
         conversion_retry_delay = 100000000000000000000\<rparr>\<rparr>"

text \<open>A document whose only metadata is its title.\<close>

definition titled :: "string \<Rightarrow> DocxDocument" where
  "titled t =
     \<lparr>core_properties = Some \<lparr>title = AttrStr t, comments = AttrNone, subject = NoAttr\<rparr>\<rparr>"

text \<open>
  Scenario C: the input file is missing. Scenario D: the engine raises on its first
  call and succeeds on the second. A third engine that raises twice, and a metrics
  object that already holds an error for the input, from an earlier failed call.
\<close>

definition scenario_C :: scenario where
  "scenario_C = scenario_A\<lparr>sc_input_info := missing_file\<rparr>"

definition stale_metrics :: "nat ConversionMetrics" where
  "stale_metrics =
     \<lparr>successful_conversions = 0, failed_conversions = 1,
      errors = [str_path notes_md \<mapsto> ''Pandoc conversion failed: pandoc died''],
      samples = 0\<rparr>"

definition scenario_D :: scenario where
  "scenario_D = scenario_A\<lparr>sc_engine := [Inl (PyError OtherError ''pandoc died'')]\<rparr>"

definition scenario_E :: scenario where
  "scenario_E = scenario_A\<lparr>sc_engine := [Inl (PyError OtherError ''pandoc died''),
     Inl (PyError OtherError ''pandoc died'')]\<rparr>"

lemmas scenario_simps = scenario_env_def scenario_A_def scenario_B_def scenario_config_def
  file_of_size_def missing_file_def text_of_def initial_state_def notes_md_def notes_docx_def
  no_metrics_def

lemmas scenario_defs = scenario_simps scenario_C_def scenario_D_def scenario_E_def
  stale_metrics_def infinite_size_def object_size_def long_delay_config_def

lemmas run_simps =
  convert_markdown_to_docx_def validate_markdown_input_def size_as_int_def attempt_def
  attempt_body_def attempt_handler_def convert_markdown_to_docx_once_def
  get_conversion_output_def validate_conversion_def check_docx_metadata_def
  check_file_size_def check_conversion_ratio_def track_metrics_def time_sleep_def
  record_failure_def update_metrics_def increment_retry_count_def assign_retry_count_def
  count_attempt_def count_engine_call_def new_metrics_def metrics_object_def
  return_def raise_def bind_def try_except_def try_except_classes_def lift_def ext_def
  ext_total_def logger_def Let_def strip_def py_isspace_def

section \<open>Properties\<close>

subsection \<open>Input validation\<close>

lemma size_as_int_value:
  "fst (size_as_int what sz s) = size_or_default sz"
  "world (snd (size_as_int what sz s)) = world s"
proof -
  have "fst (size_as_int what sz s) = size_or_default sz \<and>
        world (snd (size_as_int what sz s)) = world s"
  proof (cases "py_int sz")
    case (Inr n)
    then show ?thesis
      by (cases sz)
        (simp_all add: size_as_int_def size_or_default_def try_except_classes_def lift_def
          return_def)
  next
    case (Inl e)
    then show ?thesis
      by (cases sz; cases "is_instance [TypeError, ValueError] e")
        (simp_all add: size_as_int_def size_or_default_def try_except_classes_def lift_def
          return_def bind_def logger_def)
  qed
  then show "fst (size_as_int what sz s) = size_or_default sz"
    and "world (snd (size_as_int what sz s)) = world s" by simp_all
qed

lemma size_as_int_run:
  "\<exists>s'. size_as_int what sz s = (size_or_default sz, s') \<and> world s' = world s"
  using size_as_int_value [of what sz s]
  by (cases "size_as_int what sz s") simp




subsection \<open>Output validation\<close>

lemma check_docx_metadata_returns:
  "\<exists>s'. check_docx_metadata env docx_path source_path links s = (Inr (), s')"
  unfolding check_docx_metadata_def try_except_def try_except_classes_def bind_def
    ext_def return_def logger_def Let_def
  by (auto split: prod.splits sum.splits if_splits option.splits)

lemma check_docx_metadata_value:
  "check_docx_metadata env docx_path source_path links s = (r, s') \<Longrightarrow> r = Inr ()"
  using check_docx_metadata_returns [of env docx_path source_path links s] by auto

lemma validate_conversion_missing:
  assumes "get_file_info env output_path (world s) = (Inr output_info, w1)"
    and "\<not> success output_info \<or> \<not> exists output_info"
  shows "fst (validate_conversion env output_path input_path original_size config s) =
           Inr [''Output file does not exist: '' @ str_path output_path]"
  using assms
  by (auto simp: validate_conversion_def bind_def ext_def return_def Let_def)

lemma validate_conversion_size_raises:
  assumes info: "get_file_info env output_path (world s) = (Inr output_info, w1)"
    and ok: "success output_info" "exists output_info"
    and size: "size_or_default (file_size output_info) = Inl e"
  shows "fst (validate_conversion env output_path input_path original_size config s) = Inl e"
proof -
  obtain s1 where s1: "size_as_int ''Could not convert output size to integer: ''
      (file_size output_info) (s\<lparr>world := w1\<rparr>) = (Inl e, s1)"
    using size_as_int_run [of "''Could not convert output size to integer: ''"
        "file_size output_info" "s\<lparr>world := w1\<rparr>"] size by auto
  show ?thesis
    using info ok s1
    unfolding validate_conversion_def Let_def
    by (simp add: bind_def ext_def)
qed

lemma validate_conversion_value:
  assumes info: "get_file_info env output_path (world s) = (Inr output_info, w1)"
    and ok: "success output_info" "exists output_info"
    and size: "size_or_default (file_size output_info) = Inr converted_size"
  shows "fst (validate_conversion env output_path input_path original_size config s) =
     (let v = validation config;
          size_check = check_file_size env converted_size (min_file_size v);
          ratio_check = check_conversion_ratio env converted_size original_size
            (conversion_ratio_threshold v);
          errs = (if fst size_check then [] else snd size_check) @
                 (if fst ratio_check then [] else snd ratio_check)
      in if verify_structure v \<and> fst (path_exists env output_path w1) then
           (case validate_docx_structure env output_path (check_links v)
                   (snd (path_exists env output_path w1)) of
              ((is_valid, structure_errors), w3) \<Rightarrow>
                Inr (errs @ (if is_valid then [] else structure_errors)))
         else Inr errs)"
proof -
  obtain s1 where s1: "size_as_int ''Could not convert output size to integer: ''
      (file_size output_info) (s\<lparr>world := w1\<rparr>) = (Inr converted_size, s1)"
    and w1: "world s1 = w1"
    using size_as_int_run [of "''Could not convert output size to integer: ''"
        "file_size output_info" "s\<lparr>world := w1\<rparr>"] size by auto
  show ?thesis
    using info ok s1 w1
    unfolding validate_conversion_def Let_def
    by (auto simp: bind_def ext_def ext_total_def return_def
        dest!: check_docx_metadata_value split: prod.splits)
qed

text \<open>
  Claim C5. When the output file does not exist (or its info says the call failed),
  \<^verbatim>\<open>validate_conversion\<close> returns the single existence error and checks nothing else.
  When it exists and its size is determined, the returned list is the messages of the
  size check if that check failed, then the messages of the ratio check if that check
  failed, then the messages of the structure validator if that check failed: a check
  that fails never stops a later one. The structure validator is the one of spec 4.3
  rule 4 and line 313 of the source: it contributes when \<^verbatim>\<open>verify_structure\<close> is set and
  \<^verbatim>\<open>output_path.exists()\<close> holds, and nothing otherwise.
\<close>

theorem validate_conversion_accumulates:
  assumes "get_file_info env output_path (world s) = (Inr output_info, w1)"
  shows "(\<not> success output_info \<or> \<not> exists output_info \<longrightarrow>
            fst (validate_conversion env output_path input_path original_size config s) =
              Inr [''Output file does not exist: '' @ str_path output_path]) \<and>
         (\<forall>converted_size.
            success output_info \<and> exists output_info \<and>
            size_or_default (file_size output_info) = Inr converted_size \<longrightarrow>
            fst (validate_conversion env output_path input_path original_size config s) =
              (let v = validation config;
                   size_check = check_file_size env converted_size (min_file_size v);
                   ratio_check =
                     check_conversion_ratio env converted_size original_size
                       (conversion_ratio_threshold v);
                   structure_check =
                     (if verify_structure v \<and> fst (path_exists env output_path w1)
                      then fst (validate_docx_structure env output_path (check_links v)
                                  (snd (path_exists env output_path w1)))
                      else (True, []))
               in Inr ((if fst size_check then [] else snd size_check) @
                       (if fst ratio_check then [] else snd ratio_check) @
                       (if fst structure_check then [] else snd structure_check))))"
proof (intro conjI allI impI)
  assume "\<not> success output_info \<or> \<not> exists output_info"
  with assms show "fst (validate_conversion env output_path input_path original_size config s) =
      Inr [''Output file does not exist: '' @ str_path output_path]"
    by (rule validate_conversion_missing)
next
  fix converted_size
  assume a: "success output_info \<and> exists output_info \<and>
            size_or_default (file_size output_info) = Inr converted_size"
  then have ok: "success output_info" "exists output_info"
    and size: "size_or_default (file_size output_info) = Inr converted_size" by simp_all
  from validate_conversion_value [OF assms ok size]
  show "fst (validate_conversion env output_path input_path original_size config s) =
              (let v = validation config;
                   size_check = check_file_size env converted_size (min_file_size v);
                   ratio_check =
                     check_conversion_ratio env converted_size original_size
                       (conversion_ratio_threshold v);
                   structure_check =
                     (if verify_structure v \<and> fst (path_exists env output_path w1)
                      then fst (validate_docx_structure env output_path (check_links v)
                                  (snd (path_exists env output_path w1)))
                      else (True, []))
               in Inr ((if fst size_check then [] else snd size_check) @
                       (if fst ratio_check then [] else snd ratio_check) @
                       (if fst structure_check then [] else snd structure_check)))"
    by (auto simp: Let_def split: prod.splits)
qed

theorem validate_conversion_accumulates_witness:
  "fst (validate_conversion
          (scenario_env (scenario_B\<lparr>sc_structure := (False, [''Document has no body''])\<rparr>))
          notes_docx notes_md 500 (scenario_config 2 True) (initial_state 0 no_metrics)) =
     Inr [''Converted file is below the minimum size'',
          ''Conversion ratio is below the threshold'', ''Document has no body''] \<and>
   fst (validate_conversion
          (scenario_env (scenario_B\<lparr>sc_structure := (False, [''Document has no body''])\<rparr>))
          notes_docx notes_md 500 (scenario_config 2 False) (initial_state 0 no_metrics)) =
     Inr [''Converted file is below the minimum size'',
          ''Conversion ratio is below the threshold''] \<and>
   fst (validate_conversion
          (scenario_env (scenario_B\<lparr>sc_output_info := missing_file\<rparr>))
          notes_docx notes_md 500 (scenario_config 2 True) (initial_state 0 no_metrics)) =
     Inr [''Output file does not exist: /out/notes.docx'']"
proof -
  let ?both = "scenario_B\<lparr>sc_structure := (False, [''Document has no body''])\<rparr>"
  let ?gone = "scenario_B\<lparr>sc_output_info := missing_file\<rparr>"
  have size: "size_or_default (file_size (file_of_size (SizeInt 10))) = Inr 10"
    by (simp add: size_or_default_def file_of_size_def)
  have 1: "fst (validate_conversion (scenario_env ?both) notes_docx notes_md 500
      (scenario_config 2 verify) (initial_state 0 no_metrics)) =
     Inr ([''Converted file is below the minimum size'',
           ''Conversion ratio is below the threshold''] @
          (if verify then [''Document has no body''] else []))" for verify
    using validate_conversion_accumulates [where env = "scenario_env ?both"
        and output_path = notes_docx and s = "initial_state 0 no_metrics"
        and output_info = "file_of_size (SizeInt 10)" and ?w1.0 = 0 and input_path = notes_md
        and original_size = 500 and config = "scenario_config 2 verify",
        THEN conjunct2, rule_format, of 10] size
    by (simp add: scenario_simps check_file_size_def check_conversion_ratio_def)
  have 2: "fst (validate_conversion (scenario_env ?gone) notes_docx notes_md 500
      (scenario_config 2 True) (initial_state 0 no_metrics)) =
     Inr [''Output file does not exist: /out/notes.docx'']"
    using validate_conversion_accumulates [where env = "scenario_env ?gone"
        and output_path = notes_docx and s = "initial_state 0 no_metrics"
        and output_info = missing_file and ?w1.0 = 0 and input_path = notes_md
        and original_size = 500 and config = "scenario_config 2 True", THEN conjunct1]
    by (simp add: scenario_simps)
  from 1 [of True] 1 [of False] 2 show ?thesis by simp
qed

text \<open>
  Claim C6. An existing output file of size 0, with any positive input size and a
  positive \<^verbatim>\<open>conversion_ratio_threshold\<close>, fails the ratio check whatever
  \<^verbatim>\<open>min_file_size\<close> is: \<^verbatim>\<open>validate_conversion\<close> returns a list that holds the ratio
  message, so is not empty.
\<close>

theorem empty_output_flagged:
  assumes "get_file_info env output_path (world s) = (Inr output_info, w1)"
    and "success output_info" and "exists output_info"
    and "file_size output_info = SizeInt 0"
    and "0 < original_size"
    and "0 < conversion_ratio_threshold (validation config)"
  shows "\<exists>errs. fst (validate_conversion env output_path input_path original_size config s) =
           Inr errs \<and> errs \<noteq> [] \<and>
           ratio_message env 0 original_size (conversion_ratio_threshold (validation config))
             \<in> set errs"
proof -
  from assms(4) have "size_or_default (file_size output_info) = Inr 0"
    by (simp add: size_or_default_def)
  from validate_conversion_value [OF assms(1-3) this, of input_path original_size config]
    assms(5,6)
  show ?thesis
    by (auto simp: Let_def check_conversion_ratio_def split: prod.splits)
qed

theorem empty_output_flagged_witness:
  "\<exists>errs. fst (validate_conversion
       (scenario_env (scenario_A\<lparr>sc_output_info := file_of_size (SizeInt 0)\<rparr>))
       notes_docx notes_md 500
       ((scenario_config 2 True)\<lparr>validation :=
          (validation (scenario_config 2 True))\<lparr>min_file_size := 0\<rparr>\<rparr>)
       (initial_state 0 no_metrics)) = Inr errs \<and> errs \<noteq> [] \<and>
     ''Conversion ratio is below the threshold'' \<in> set errs"
  using empty_output_flagged [of
      "scenario_env (scenario_A\<lparr>sc_output_info := file_of_size (SizeInt 0)\<rparr>)"
      notes_docx "initial_state 0 no_metrics" "file_of_size (SizeInt 0)" 0 500
      "(scenario_config 2 True)\<lparr>validation :=
          (validation (scenario_config 2 True))\<lparr>min_file_size := 0\<rparr>\<rparr>" notes_md]
  by (simp add: scenario_simps)

lemma validate_conversion_raises:
  assumes "get_file_info env output_path (world s) = (Inl e, w1)"
  shows "fst (validate_conversion env output_path input_path original_size config s) = Inl e"
  using assms by (simp add: validate_conversion_def bind_def ext_def Let_def)

text \<open>
  Claim C7. The error list of \<^verbatim>\<open>validate_conversion\<close> does not depend on the
  python-docx reader: replace \<^verbatim>\<open>importlib.import_module('docx')\<close> and
  \<^verbatim>\<open>docx.Document\<close> by anything (a module that is missing, a reader that raises, a
  document whose metadata names the source or does not) and the value is the same. The
  metadata check itself always returns \<^verbatim>\<open>None\<close>; what it finds goes to the log.
\<close>

theorem metadata_check_is_advisory:
  "fst (validate_conversion (env\<lparr>import_docx := importer, Document := reader\<rparr>)
          output_path input_path original_size config s) =
   fst (validate_conversion env output_path input_path original_size config s) \<and>
   fst (check_docx_metadata (env\<lparr>import_docx := importer, Document := reader\<rparr>)
          output_path input_path links s) = Inr ()"
proof
  let ?env = "env\<lparr>import_docx := importer, Document := reader\<rparr>"
  obtain r w1 where info: "get_file_info env output_path (world s) = (r, w1)"
    by (cases "get_file_info env output_path (world s)")
  then have info': "get_file_info ?env output_path (world s) = (r, w1)" by simp
  have checks: "check_file_size ?env = check_file_size env"
    "check_conversion_ratio ?env = check_conversion_ratio env"
    by (simp_all add: check_file_size_def check_conversion_ratio_def fun_eq_iff)
  show "fst (validate_conversion ?env output_path input_path original_size config s) =
        fst (validate_conversion env output_path input_path original_size config s)"
  proof (cases r)
    case (Inl e)
    with info info' show ?thesis by (simp add: validate_conversion_raises)
  next
    case (Inr output_info)
    show ?thesis
    proof (cases "success output_info \<and> exists output_info")
      case True
      show ?thesis
      proof (cases "size_or_default (file_size output_info)")
        case (Inl e)
        with True info info' Inr show ?thesis
          by (simp add: validate_conversion_size_raises)
      next
        case size: (Inr converted_size)
        with True info info' Inr show ?thesis
          by (simp add: validate_conversion_value checks Let_def)
      qed
    next
      case False
      with info info' Inr show ?thesis
        by (simp add: validate_conversion_missing)
    qed
  qed
  show "fst (check_docx_metadata ?env output_path input_path links s) = Inr ()"
    using check_docx_metadata_returns [of ?env output_path input_path links s] by auto
qed

theorem metadata_check_is_advisory_witness:
  "fst (validate_conversion
          (scenario_env (scenario_A\<lparr>sc_python_docx := Some (Inr (titled ''Minutes''))\<rparr>))
          notes_docx notes_md 500 (scenario_config 2 True) (initial_state 0 no_metrics)) =
   fst (validate_conversion (scenario_env scenario_A)
          notes_docx notes_md 500 (scenario_config 2 True) (initial_state 0 no_metrics)) \<and>
   fst (validate_conversion
          (scenario_env (scenario_A\<lparr>sc_python_docx := Some (Inr (titled ''Minutes''))\<rparr>))
          notes_docx notes_md 500 (scenario_config 2 True) (initial_state 0 no_metrics)) =
   fst (validate_conversion
          (scenario_env (scenario_A\<lparr>sc_python_docx := Some (Inr (titled ''From notes.md''))\<rparr>))
          notes_docx notes_md 500 (scenario_config 2 True) (initial_state 0 no_metrics))"
proof -
  let ?e = "\<lambda>d. scenario_env (scenario_A\<lparr>sc_python_docx := d\<rparr>)"
  have shape: "\<And>d. ?e d = (scenario_env scenario_A)\<lparr>import_docx := import_docx (?e d),
      Document := Document (?e d)\<rparr>"
    by (simp add: scenario_env_def cong: if_cong)
  have "\<And>d. fst (validate_conversion (?e d) notes_docx notes_md 500 (scenario_config 2 True)
       (initial_state 0 no_metrics)) =
     fst (validate_conversion (scenario_env scenario_A) notes_docx notes_md 500
       (scenario_config 2 True) (initial_state 0 no_metrics))"
    using metadata_check_is_advisory [where env = "scenario_env scenario_A"
        and output_path = notes_docx and input_path = notes_md and original_size = 500
        and config = "scenario_config 2 True" and s = "initial_state 0 no_metrics"] shape
    by metis
  then show ?thesis by simp
qed

subsection \<open>The retry loop and the orchestrator\<close>

lemma retry_loop_exit:
  "\<not> retry_count s < max_retries \<Longrightarrow>
   retry_loop env markdown_path output_path config filename original_size max_retries s =
     (Inr (error_result ''Conversion failed after maximum retries''), s)"
  by simp

lemma retry_loop_metrics:
  assumes "retry_loop env markdown_path output_path config filename original_size max_retries s
             = (r, s')"
    and "retry_count s < max_retries"
  shows "case r of
           Inr (success_result c m) \<Rightarrow>
             successful_conversions (metrics s') = successful_conversions (metrics s) + 1 \<and>
             failed_conversions (metrics s') = failed_conversions (metrics s) \<and>
             errors (metrics s') = errors (metrics s)
         | Inr (error_result m) \<Rightarrow>
             successful_conversions (metrics s') = successful_conversions (metrics s) \<and>
             failed_conversions (metrics s') = failed_conversions (metrics s) + 1 \<and>
             (\<exists>msg. errors (metrics s') = (errors (metrics s))(str_path markdown_path \<mapsto> msg) \<and>
                m \<in> {''Conversion failed after maximum retries: '' @ msg,
                     ''Integration error: '' @ msg,
                     ''Failed to convert Markdown to DOCX: '' @ msg})
         | Inl e \<Rightarrow>
             successful_conversions (metrics s') = successful_conversions (metrics s) \<and>
             failed_conversions (metrics s') = failed_conversions (metrics s) \<and>
             errors (metrics s') = errors (metrics s) \<and>
             \<not> sleep_returns env (conversion_retry_delay (retry_mechanism config))"
  using assms
proof (induction env markdown_path output_path config filename original_size max_retries s
    arbitrary: r s' rule: retry_loop.induct)
  case (1 env markdown_path output_path config filename original_size max_retries s)
  obtain ra s1 where att: "attempt env markdown_path output_path config filename original_size
      max_retries s = (ra, s1)"
    by (cases "attempt env markdown_path output_path config filename original_size
      max_retries s")
  note ac = attempt_cases [OF att]
  show ?case
  proof (cases ra)
    case (Inl e)
    with att "1.prems" have "r = Inl e" "s' = s1" by simp_all
    with ac Inl show ?thesis by simp
  next
    case (Inr o1)
    show ?thesis
    proof (cases o1)
      case None
      with att Inr "1.prems" have loop: "retry_loop env markdown_path output_path config filename
          original_size max_retries s1 = (r, s')" by simp
      from ac Inr None have s1: "retry_count s1 < max_retries"
        "successful_conversions (metrics s1) = successful_conversions (metrics s)"
        "failed_conversions (metrics s1) = failed_conversions (metrics s)"
        "errors (metrics s1) = errors (metrics s)" by simp_all
      from "1.IH" [OF "1.prems"(2) att [symmetric] Inr None loop s1(1)]
      show ?thesis by (simp only: s1(2-4))
    next
      case (Some res)
      with att Inr "1.prems" have "r = Inr res" "s' = s1" by simp_all
      with ac Inr Some show ?thesis
        by (cases res) simp_all
    qed
  qed
qed

lemma retry_loop_counts:
  assumes "retry_loop env markdown_path output_path config filename original_size max_retries s
             = (r, s')"
    and "retry_count s < max_retries"
  shows "attempts s < attempts s' \<and>
         int (attempts s') - int (attempts s) \<le> max_retries - retry_count s \<and>
         engine_calls s \<le> engine_calls s' \<and>
         engine_calls s' - engine_calls s \<le> attempts s' - attempts s \<and>
         (sleep_returns env (conversion_retry_delay (retry_mechanism config)) \<longrightarrow>
            sleep_calls s' + attempts s + 1 = sleep_calls s + attempts s' \<and>
            (\<exists>res. r = Inr res))"
  using assms
proof (induction env markdown_path output_path config filename original_size max_retries s
    arbitrary: r s' rule: retry_loop.induct)
  case (1 env markdown_path output_path config filename original_size max_retries s)
  obtain ra s1 where att: "attempt env markdown_path output_path config filename original_size
      max_retries s = (ra, s1)"
    by (cases "attempt env markdown_path output_path config filename original_size
      max_retries s")
  note ac = attempt_cases [OF att]
  show ?case
  proof (cases ra)
    case (Inl e)
    with att "1.prems" have "r = Inl e" "s' = s1" by simp_all
    with ac Inl "1.prems"(2) show ?thesis by auto
  next
    case (Inr o1)
    show ?thesis
    proof (cases o1)
      case None
      with att Inr "1.prems" have loop: "retry_loop env markdown_path output_path config filename
          original_size max_retries s1 = (r, s')" by simp
      from ac Inr None have s1: "retry_count s1 < max_retries"
        "retry_count s < retry_count s1" "attempts s1 = attempts s + 1"
        "engine_calls s \<le> engine_calls s1" "engine_calls s1 \<le> engine_calls s + 1"
        "sleep_returns env (conversion_retry_delay (retry_mechanism config)) \<longrightarrow>
           sleep_calls s1 = sleep_calls s + 1" by simp_all
      from "1.IH" [OF "1.prems"(2) att [symmetric] Inr None loop s1(1)] s1(2-)
      show ?thesis by auto
    next
      case (Some res)
      with att Inr "1.prems" have "r = Inr res" "s' = s1" by simp_all
      with ac Inr Some "1.prems"(2) show ?thesis
        by (cases res) auto
    qed
  qed
qed

lemma convert_unfold:
  "convert_markdown_to_docx env markdown_path output_path config metrics_arg w =
     (case validate_markdown_input env markdown_path
             (initial_state w (metrics_object env metrics_arg)) of
        (Inl e, sv) \<Rightarrow>
          (Inr (error_result (''Failed to convert Markdown to DOCX: '' @ str_exn e)),
           sv\<lparr>metrics := failure_recorded markdown_path (str_exn e) (metrics sv)\<rparr>)
      | (Inr original_size, sv) \<Rightarrow>
          (case retry_loop env markdown_path output_path config (path_name markdown_path)
                  original_size (max_conversion_retries (retry_mechanism config))
                  (sv\<lparr>retry_count := 0\<rparr>) of
             (Inl e, s3) \<Rightarrow>
               (Inr (error_result (''Failed to convert Markdown to DOCX: '' @ str_exn e)),
                s3\<lparr>metrics := failure_recorded markdown_path (str_exn e) (metrics s3)\<rparr>)
           | (Inr res, s3) \<Rightarrow> (Inr res, s3)))"
  unfolding convert_markdown_to_docx_def Let_def try_except_def bind_def
    assign_retry_count_def failure_recorded_def
  by (simp add: record_failure_apply return_def split: prod.splits sum.splits)

lemma validate_markdown_input_frame:
  assumes "validate_markdown_input env markdown_path (initial_state w m0) = (r, sv)"
  shows "metrics sv = m0 \<and> engine_calls sv = 0 \<and> sleep_calls sv = 0 \<and> attempts sv = 0"
  using quietD [OF quiet_validate_markdown_input assms]
  by (simp add: unchanged_def initial_state_def)

lemma convert_invalid_input:
  assumes "validate_markdown_input env markdown_path
             (initial_state w (metrics_object env metrics_arg))
           = (Inl e, sv)"
    and "convert_markdown_to_docx env markdown_path output_path config metrics_arg w = (r, s')"
  shows "r = Inr (error_result (''Failed to convert Markdown to DOCX: '' @ str_exn e)) \<and>
         metrics s' = failure_recorded markdown_path (str_exn e)
           (metrics_object env metrics_arg) \<and>
         engine_calls s' = 0 \<and> sleep_calls s' = 0 \<and> attempts s' = 0"
  using assms(2) validate_markdown_input_frame [OF assms(1)]
  by (auto simp: convert_unfold assms(1))

lemma convert_no_budget:
  assumes "validate_markdown_input env markdown_path
             (initial_state w (metrics_object env metrics_arg))
           = (Inr original_size, sv)"
    and "max_conversion_retries (retry_mechanism config) \<le> 0"
    and "convert_markdown_to_docx env markdown_path output_path config metrics_arg w = (r, s')"
  shows "r = Inr (error_result ''Conversion failed after maximum retries'') \<and>
         metrics s' = (metrics_object env metrics_arg) \<and>
         engine_calls s' = 0 \<and> sleep_calls s' = 0 \<and> attempts s' = 0"
  using assms(2,3) validate_markdown_input_frame [OF assms(1)]
  by (auto simp: convert_unfold assms(1))

lemma convert_attempted:
  assumes v: "validate_markdown_input env markdown_path
             (initial_state w (metrics_object env metrics_arg))
           = (Inr original_size, sv)"
    and n: "1 \<le> max_conversion_retries (retry_mechanism config)"
    and run: "convert_markdown_to_docx env markdown_path output_path config metrics_arg w = (r, s')"
    and m0: "m0 = (metrics_object env metrics_arg)"
  shows "1 \<le> attempts s' \<and>
         int (attempts s') \<le> max_conversion_retries (retry_mechanism config) \<and>
         engine_calls s' \<le> attempts s' \<and>
         (sleep_returns env (conversion_retry_delay (retry_mechanism config)) \<longrightarrow>
            sleep_calls s' + 1 = attempts s') \<and>
         ((\<exists>c msg. r = Inr (success_result c msg) \<and>
             successful_conversions (metrics s') = successful_conversions m0 + 1 \<and>
             failed_conversions (metrics s') = failed_conversions m0 \<and>
             errors (metrics s') = errors m0) \<or>
          (\<exists>msg recorded. r = Inr (error_result msg) \<and>
             successful_conversions (metrics s') = successful_conversions m0 \<and>
             failed_conversions (metrics s') = failed_conversions m0 + 1 \<and>
             errors (metrics s') = (errors m0)(str_path markdown_path \<mapsto> recorded) \<and>
             msg \<in> {''Conversion failed after maximum retries: '' @ recorded,
                    ''Integration error: '' @ recorded,
                    ''Failed to convert Markdown to DOCX: '' @ recorded}))"
proof -
  let ?N = "max_conversion_retries (retry_mechanism config)"
  let ?s2 = "sv\<lparr>retry_count := 0\<rparr>"
  obtain rl s3 where loop: "retry_loop env markdown_path output_path config
      (path_name markdown_path) original_size ?N ?s2 = (rl, s3)"
    by (cases "retry_loop env markdown_path output_path config
      (path_name markdown_path) original_size ?N ?s2")
  from n have rc: "retry_count ?s2 < ?N" by simp
  from validate_markdown_input_frame [OF v] m0
  have s2: "metrics ?s2 = m0" "engine_calls ?s2 = 0" "sleep_calls ?s2 = 0" "attempts ?s2 = 0"
    by simp_all
  note lm = retry_loop_metrics [OF loop rc] and lc = retry_loop_counts [OF loop rc]
  show ?thesis
  proof (cases rl)
    case (Inl e)
    with run v loop have r: "r = Inr (error_result
        (''Failed to convert Markdown to DOCX: '' @ str_exn e))"
      and s': "s' = s3\<lparr>metrics := failure_recorded markdown_path (str_exn e) (metrics s3)\<rparr>"
      by (simp_all add: convert_unfold)
    from lm lc Inl s2 r s' show ?thesis
      by (auto simp: failure_recorded_def)
  next
    case (Inr res)
    with run v loop have r: "r = Inr res" and s': "s' = s3"
      by (simp_all add: convert_unfold)
    from lm lc Inr s2 r s' show ?thesis
      by (cases res) auto
  qed
qed

text \<open>
  Claim C1. A call with \<^verbatim>\<open>max_conversion_retries\<close> at least 1 returns either a success,
  and then \<^verbatim>\<open>successful_conversions\<close> has grown by exactly 1 while
  \<^verbatim>\<open>failed_conversions\<close> and \<^verbatim>\<open>errors\<close> are as before; or a failure, and then
  \<^verbatim>\<open>failed_conversions\<close> has grown by exactly 1, \<^verbatim>\<open>successful_conversions\<close> is as
  before and \<^verbatim>\<open>errors\<close> differs from before in the one entry keyed by the source
  path.
\<close>

theorem one_counter_per_call:
  assumes "1 \<le> max_conversion_retries (retry_mechanism config)"
    and "convert_markdown_to_docx env markdown_path output_path config metrics_arg w = (r, s')"
  shows "(\<exists>c msg. r = Inr (success_result c msg) \<and>
            successful_conversions (metrics s') =
              successful_conversions (metrics_object env metrics_arg) + 1 \<and>
            failed_conversions (metrics s') =
              failed_conversions (metrics_object env metrics_arg) \<and>
            errors (metrics s') = errors (metrics_object env metrics_arg)) \<or>
         (\<exists>msg recorded. r = Inr (error_result msg) \<and>
            successful_conversions (metrics s') =
              successful_conversions (metrics_object env metrics_arg) \<and>
            failed_conversions (metrics s') =
              failed_conversions (metrics_object env metrics_arg) + 1 \<and>
            errors (metrics s') =
              (errors (metrics_object env metrics_arg))(str_path markdown_path \<mapsto> recorded))"
proof -
  obtain rv sv where v: "validate_markdown_input env markdown_path
      (initial_state w (metrics_object env metrics_arg)) = (rv, sv)"
    by (cases "validate_markdown_input env markdown_path
      (initial_state w (metrics_object env metrics_arg))")
  show ?thesis
  proof (cases rv)
    case (Inl e)
    from convert_invalid_input [OF v [unfolded Inl] assms(2)] show ?thesis
      by (auto simp: failure_recorded_def)
  next
    case (Inr original_size)
    from convert_attempted [OF v [unfolded Inr] assms refl] show ?thesis
      by blast
  qed
qed

theorem one_counter_per_call_witness:
  "1 \<le> max_conversion_retries (retry_mechanism (scenario_config 2 True)) \<and>
   fst (convert_markdown_to_docx (scenario_env scenario_B) notes_md notes_docx
     (scenario_config 2 True) (Some no_metrics) 0) =
     Inr (error_result (''Conversion failed after maximum retries: '' @
       ''Converted file is below the minimum size; Conversion ratio is below the threshold'')) \<and>
   successful_conversions (metrics (snd (convert_markdown_to_docx (scenario_env scenario_B)
     notes_md notes_docx (scenario_config 2 True) (Some no_metrics) 0))) = 0 \<and>
   failed_conversions (metrics (snd (convert_markdown_to_docx (scenario_env scenario_B)
     notes_md notes_docx (scenario_config 2 True) (Some no_metrics) 0))) = 1 \<and>
   engine_calls (snd (convert_markdown_to_docx (scenario_env scenario_B)
     notes_md notes_docx (scenario_config 2 True) (Some no_metrics) 0)) = 2"
  using one_counter_per_call [where env = "scenario_env scenario_B" and markdown_path = notes_md
      and output_path = notes_docx and config = "scenario_config 2 True"
      and metrics_arg = "Some no_metrics" and w = 0
      and r = "fst (convert_markdown_to_docx (scenario_env scenario_B) notes_md notes_docx
        (scenario_config 2 True) (Some no_metrics) 0)"
      and s' = "snd (convert_markdown_to_docx (scenario_env scenario_B) notes_md notes_docx
        (scenario_config 2 True) (Some no_metrics) 0)"]
  by (simp add: run_simps scenario_defs)

text \<open>
  Claim C2, as the code has it. With \<^verbatim>\<open>max_conversion_retries = N\<close> at least 1, the
  engine is called at most \<open>N\<close> times: at most once per attempt, and at most \<open>N\<close>
  attempts are made (an attempt is an entry of \<^verbatim>\<open>_convert_markdown_to_docx_once\<close>). When
  input validation raises, no attempt is made and \<^verbatim>\<open>time.sleep\<close> is not called. When
  the input validates, at least one attempt is made; and if \<^verbatim>\<open>time.sleep\<close> returns
  whenever it is called with the configured delay, it is called exactly one time fewer
  than attempts were made, whatever the call returns.
\<close>

theorem attempt_and_sleep_bound:
  assumes "1 \<le> max_conversion_retries (retry_mechanism config)"
    and "convert_markdown_to_docx env markdown_path output_path config metrics_arg w = (r, s')"
  shows "int (engine_calls s') \<le> max_conversion_retries (retry_mechanism config) \<and>
         engine_calls s' \<le> attempts s' \<and>
         int (attempts s') \<le> max_conversion_retries (retry_mechanism config) \<and>
         (case fst (validate_markdown_input env markdown_path
                      (initial_state w (metrics_object env metrics_arg))) of
            Inr original_size \<Rightarrow>
              1 \<le> attempts s' \<and>
              ((\<forall>w'. fst (sleep env (conversion_retry_delay (retry_mechanism config)) w')
                       = Inr ()) \<longrightarrow>
               sleep_calls s' + 1 = attempts s')
          | Inl e \<Rightarrow> attempts s' = 0 \<and> sleep_calls s' = 0)"
proof -
  obtain rv sv where v: "validate_markdown_input env markdown_path
      (initial_state w (metrics_object env metrics_arg)) = (rv, sv)"
    by (cases "validate_markdown_input env markdown_path
      (initial_state w (metrics_object env metrics_arg))")
  show ?thesis
  proof (cases rv)
    case (Inl e)
    from convert_invalid_input [OF v [unfolded Inl] assms(2)] assms(1) v Inl show ?thesis
      by simp
  next
    case (Inr original_size)
    from convert_attempted [OF v [unfolded Inr] assms(1,2) refl] v Inr show ?thesis
      by (simp add: sleep_returns_def)
  qed
qed

theorem attempt_and_sleep_bound_witness:
  "1 \<le> max_conversion_retries (retry_mechanism (scenario_config 3 True)) \<and>
   fst (validate_markdown_input (scenario_env scenario_D) notes_md
     (initial_state 0 (metrics_object (scenario_env scenario_D) (Some no_metrics)))) = Inr 500 \<and>
   (\<forall>w'. fst (sleep (scenario_env scenario_D)
            (conversion_retry_delay (retry_mechanism (scenario_config 3 True))) w') = Inr ()) \<and>
   engine_calls (snd (convert_markdown_to_docx (scenario_env scenario_D) notes_md notes_docx
     (scenario_config 3 True) (Some no_metrics) 0)) = 2 \<and>
   attempts (snd (convert_markdown_to_docx (scenario_env scenario_D) notes_md notes_docx
     (scenario_config 3 True) (Some no_metrics) 0)) = 2 \<and>
   sleep_calls (snd (convert_markdown_to_docx (scenario_env scenario_D) notes_md notes_docx
     (scenario_config 3 True) (Some no_metrics) 0)) = 1"
  using attempt_and_sleep_bound [where env = "scenario_env scenario_D"
      and markdown_path = notes_md and output_path = notes_docx
      and config = "scenario_config 3 True" and metrics_arg = "Some no_metrics" and w = 0
      and r = "fst (convert_markdown_to_docx (scenario_env scenario_D) notes_md notes_docx
        (scenario_config 3 True) (Some no_metrics) 0)"
      and s' = "snd (convert_markdown_to_docx (scenario_env scenario_D) notes_md notes_docx
        (scenario_config 3 True) (Some no_metrics) 0)"]
  by (simp add: run_simps scenario_defs)

text \<open>
  Claim C2, as stated, is for every call. In two runs the number of sleeps is not the
  number of attempts less one. With a delay of \<open>10\<^sup>2\<^sup>0\<close> seconds, which
  \<^verbatim>\<open>time.sleep\<close> refuses with \<^verbatim>\<open>OverflowError\<close>, and an engine that raises on its
  first call, the first attempt is followed by a call of \<^verbatim>\<open>time.sleep\<close> that raises;
  the exception ends the loop and the call fails after one attempt and one sleep. And a
  call on a missing input file makes no attempt and never sleeps.
\<close>

theorem sleeps_are_not_attempts_less_one:
  "1 \<le> max_conversion_retries (retry_mechanism (long_delay_config 2)) \<and>
   0 \<le> conversion_retry_delay (retry_mechanism (long_delay_config 2)) \<and>
   fst (convert_markdown_to_docx (scenario_env scenario_D) notes_md notes_docx
     (long_delay_config 2) (Some no_metrics) 0) =
     Inr (error_result (''Failed to convert Markdown to DOCX: '' @
       ''timestamp too large to convert to C _PyTime_t'')) \<and>
   attempts (snd (convert_markdown_to_docx (scenario_env scenario_D) notes_md notes_docx
     (long_delay_config 2) (Some no_metrics) 0)) = 1 \<and>
   sleep_calls (snd (convert_markdown_to_docx (scenario_env scenario_D) notes_md notes_docx
     (long_delay_config 2) (Some no_metrics) 0)) = 1 \<and>
   sleep_calls (snd (convert_markdown_to_docx (scenario_env scenario_D) notes_md notes_docx
     (long_delay_config 2) (Some no_metrics) 0)) \<noteq>
   attempts (snd (convert_markdown_to_docx (scenario_env scenario_D) notes_md notes_docx
     (long_delay_config 2) (Some no_metrics) 0)) - 1 \<and>
   1 \<le> max_conversion_retries (retry_mechanism (scenario_config 2 True)) \<and>
   0 \<le> conversion_retry_delay (retry_mechanism (scenario_config 2 True)) \<and>
   fst (convert_markdown_to_docx (scenario_env scenario_C) notes_md notes_docx
     (scenario_config 2 True) (Some no_metrics) 0) =
     Inr (error_result
       ''Failed to convert Markdown to DOCX: Input file not found: /docs/notes.md'') \<and>
   attempts (snd (convert_markdown_to_docx (scenario_env scenario_C) notes_md notes_docx
     (scenario_config 2 True) (Some no_metrics) 0)) = 0 \<and>
   sleep_calls (snd (convert_markdown_to_docx (scenario_env scenario_C) notes_md notes_docx
     (scenario_config 2 True) (Some no_metrics) 0)) = 0 \<and>
   int (sleep_calls (snd (convert_markdown_to_docx (scenario_env scenario_C) notes_md notes_docx
     (scenario_config 2 True) (Some no_metrics) 0))) \<noteq>
   int (attempts (snd (convert_markdown_to_docx (scenario_env scenario_C) notes_md notes_docx
     (scenario_config 2 True) (Some no_metrics) 0))) - 1"
  by (simp add: run_simps scenario_defs)

text \<open>
  Claim C4. When the input file does not exist (or its info cannot be had), the call
  returns the failure "Failed to convert Markdown to DOCX: Input file not found:" followed
  by the path; and whenever input validation raises, the call returns the failure with
  the exception's message. In both cases the engine is never called, no attempt is made,
  nothing sleeps, and the metrics object is the one before with
  \<^verbatim>\<open>failed_conversions\<close> one higher and the one error entry for the source path.
\<close>

theorem invalid_input_fails_at_once:
  assumes "convert_markdown_to_docx env markdown_path output_path config metrics_arg w = (r, s')"
  shows "(\<forall>file_info w1.
            get_file_info env markdown_path w = (Inr file_info, w1) \<and>
            (\<not> success file_info \<or> \<not> exists file_info) \<longrightarrow>
            r = Inr (error_result (''Failed to convert Markdown to DOCX: '' @
                  ''Input file not found: '' @ str_path markdown_path)) \<and>
            metrics s' = failure_recorded markdown_path
              (''Input file not found: '' @ str_path markdown_path)
              (metrics_object env metrics_arg) \<and>
            engine_calls s' = 0 \<and> attempts s' = 0 \<and> sleep_calls s' = 0) \<and>
         (\<forall>e sv.
            validate_markdown_input env markdown_path
              (initial_state w (metrics_object env metrics_arg)) = (Inl e, sv) \<longrightarrow>
            r = Inr (error_result (''Failed to convert Markdown to DOCX: '' @ str_exn e)) \<and>
            metrics s' = failure_recorded markdown_path (str_exn e)
              (metrics_object env metrics_arg) \<and>
            engine_calls s' = 0 \<and> attempts s' = 0 \<and> sleep_calls s' = 0)"
proof (intro conjI allI impI)
  fix file_info w1
  assume a: "get_file_info env markdown_path w = (Inr file_info, w1) \<and>
            (\<not> success file_info \<or> \<not> exists file_info)"
  let ?e = "QuackIntegrationError (''Input file not found: '' @ str_path markdown_path)
         [(''path'', str_path markdown_path), (''format'', ''markdown'')]"
  from a have "\<exists>sv. validate_markdown_input env markdown_path
      (initial_state w (metrics_object env metrics_arg)) = (Inl ?e, sv)"
    by (auto simp: validate_markdown_input_def bind_def ext_def raise_def initial_state_def)
  then obtain sv where "validate_markdown_input env markdown_path
      (initial_state w (metrics_object env metrics_arg)) = (Inl ?e, sv)" ..
  from convert_invalid_input [OF this assms]
  show "r = Inr (error_result (''Failed to convert Markdown to DOCX: '' @
                  ''Input file not found: '' @ str_path markdown_path))"
    and "metrics s' = failure_recorded markdown_path
              (''Input file not found: '' @ str_path markdown_path)
              (metrics_object env metrics_arg)"
    and "engine_calls s' = 0" and "attempts s' = 0" and "sleep_calls s' = 0"
    by simp_all
next
  fix e sv
  assume "validate_markdown_input env markdown_path
              (initial_state w (metrics_object env metrics_arg)) = (Inl e, sv)"
  from convert_invalid_input [OF this assms]
  show "r = Inr (error_result (''Failed to convert Markdown to DOCX: '' @ str_exn e))"
    and "metrics s' = failure_recorded markdown_path (str_exn e)
              (metrics_object env metrics_arg)"
    and "engine_calls s' = 0" and "attempts s' = 0" and "sleep_calls s' = 0"
    by simp_all
qed

theorem invalid_input_fails_at_once_witness:
  "get_file_info (scenario_env scenario_C) notes_md 0 = (Inr missing_file, 0) \<and>
   \<not> exists missing_file \<and>
   fst (convert_markdown_to_docx (scenario_env scenario_C) notes_md notes_docx
     (scenario_config 2 True) (Some no_metrics) 0) =
     Inr (error_result
       ''Failed to convert Markdown to DOCX: Input file not found: /docs/notes.md'') \<and>
   engine_calls (snd (convert_markdown_to_docx (scenario_env scenario_C) notes_md notes_docx
     (scenario_config 2 True) (Some no_metrics) 0)) = 0 \<and>
   failed_conversions (metrics (snd (convert_markdown_to_docx (scenario_env scenario_C) notes_md
     notes_docx (scenario_config 2 True) (Some no_metrics) 0))) = 1 \<and>
   errors (metrics (snd (convert_markdown_to_docx (scenario_env scenario_C) notes_md
     notes_docx (scenario_config 2 True) (Some no_metrics) 0))) (str_path notes_md) =
     Some ''Input file not found: /docs/notes.md''"
  using invalid_input_fails_at_once [where env = "scenario_env scenario_C"
      and markdown_path = notes_md and output_path = notes_docx
      and config = "scenario_config 2 True" and metrics_arg = "Some no_metrics" and w = 0
      and r = "fst (convert_markdown_to_docx (scenario_env scenario_C) notes_md notes_docx
        (scenario_config 2 True) (Some no_metrics) 0)"
      and s' = "snd (convert_markdown_to_docx (scenario_env scenario_C) notes_md notes_docx
        (scenario_config 2 True) (Some no_metrics) 0)"]
  by (simp add: run_simps scenario_defs failure_recorded_def)




text \<open>
  Claim C9. With \<^verbatim>\<open>max_conversion_retries\<close> at most 0 and an input that validates, the
  call returns the failure "Conversion failed after maximum retries", the engine is never
  called and the metrics object is untouched: neither counter moves and \<^verbatim>\<open>errors\<close>
  is as before.
\<close>

theorem no_budget_no_attempt:
  assumes "max_conversion_retries (retry_mechanism config) \<le> 0"
    and "fst (validate_markdown_input env markdown_path
           (initial_state w (metrics_object env metrics_arg))) = Inr original_size"
    and "convert_markdown_to_docx env markdown_path output_path config metrics_arg w = (r, s')"
  shows "r = Inr (error_result ''Conversion failed after maximum retries'') \<and>
         metrics s' = metrics_object env metrics_arg \<and>
         engine_calls s' = 0 \<and> attempts s' = 0 \<and> sleep_calls s' = 0"
proof -
  from assms(2) obtain sv where "validate_markdown_input env markdown_path
      (initial_state w (metrics_object env metrics_arg)) = (Inr original_size, sv)"
    by (cases "validate_markdown_input env markdown_path
      (initial_state w (metrics_object env metrics_arg))") simp
  from convert_no_budget [OF this assms(1,3)] show ?thesis by simp
qed

theorem no_budget_no_attempt_witness:
  "max_conversion_retries (retry_mechanism (scenario_config 0 True)) \<le> 0 \<and>
   fst (validate_markdown_input (scenario_env scenario_A) notes_md
     (initial_state 0 (metrics_object (scenario_env scenario_A) (Some no_metrics)))) = Inr 500 \<and>
   fst (convert_markdown_to_docx (scenario_env scenario_A) notes_md notes_docx
     (scenario_config 0 True) (Some no_metrics) 0) =
     Inr (error_result ''Conversion failed after maximum retries'') \<and>
   engine_calls (snd (convert_markdown_to_docx (scenario_env scenario_A) notes_md notes_docx
     (scenario_config 0 True) (Some no_metrics) 0)) = 0 \<and>
   successful_conversions (metrics (snd (convert_markdown_to_docx (scenario_env scenario_A)
     notes_md notes_docx (scenario_config 0 True) (Some no_metrics) 0))) = 0 \<and>
   failed_conversions (metrics (snd (convert_markdown_to_docx (scenario_env scenario_A)
     notes_md notes_docx (scenario_config 0 True) (Some no_metrics) 0))) = 0 \<and>
   errors (metrics (snd (convert_markdown_to_docx (scenario_env scenario_A)
     notes_md notes_docx (scenario_config 0 True) (Some no_metrics) 0))) (str_path notes_md)
     = None"
  using no_budget_no_attempt [where env = "scenario_env scenario_A"
      and markdown_path = notes_md and output_path = notes_docx
      and config = "scenario_config 0 True" and metrics_arg = "Some no_metrics" and w = 0
      and original_size = 500
      and r = "fst (convert_markdown_to_docx (scenario_env scenario_A) notes_md notes_docx
        (scenario_config 0 True) (Some no_metrics) 0)"
      and s' = "snd (convert_markdown_to_docx (scenario_env scenario_A) notes_md notes_docx
        (scenario_config 0 True) (Some no_metrics) 0)"]
  by (simp add: run_simps scenario_defs)

text \<open>
  Claim C10. A call that returns a success leaves \<^verbatim>\<open>errors\<close> exactly as it was (an
  entry a former failed call left for the same source path is still there, unchanged)
  and leaves \<^verbatim>\<open>failed_conversions\<close> as it was; \<^verbatim>\<open>successful_conversions\<close> grows
  by one.
\<close>

theorem success_keeps_errors:
  assumes "convert_markdown_to_docx env markdown_path output_path config metrics_arg w =
             (Inr (success_result c msg), s')"
  shows "errors (metrics s') = errors (metrics_object env metrics_arg) \<and>
         failed_conversions (metrics s') = failed_conversions (metrics_object env metrics_arg) \<and>
         successful_conversions (metrics s') =
           successful_conversions (metrics_object env metrics_arg) + 1"
proof -
  obtain rv sv where v: "validate_markdown_input env markdown_path
      (initial_state w (metrics_object env metrics_arg)) = (rv, sv)"
    by (cases "validate_markdown_input env markdown_path
      (initial_state w (metrics_object env metrics_arg))")
  show ?thesis
  proof (cases rv)
    case (Inl e)
    from convert_invalid_input [OF v [unfolded Inl] assms] show ?thesis by simp
  next
    case (Inr original_size)
    show ?thesis
    proof (cases "1 \<le> max_conversion_retries (retry_mechanism config)")
      case True
      from convert_attempted [OF v [unfolded Inr] True assms refl] show ?thesis by auto
    next
      case False
      then have "max_conversion_retries (retry_mechanism config) \<le> 0" by simp
      from convert_no_budget [OF v [unfolded Inr] this assms] show ?thesis by simp
    qed
  qed
qed

theorem success_keeps_errors_witness:
  "fst (convert_markdown_to_docx (scenario_env scenario_A) notes_md notes_docx
     (scenario_config 2 True) (Some stale_metrics) 0) =
     Inr (success_result
       (notes_docx,
        \<lparr>source_format = ''markdown'', target_format = ''docx'', conversion_time = 0,
         output_size = 400, input_size = 500\<rparr>)
       ''Successfully converted /docs/notes.md to DOCX'') \<and>
   errors (metrics (snd (convert_markdown_to_docx (scenario_env scenario_A) notes_md notes_docx
     (scenario_config 2 True) (Some stale_metrics) 0))) (str_path notes_md) =
     Some ''Pandoc conversion failed: pandoc died'' \<and>
   failed_conversions (metrics (snd (convert_markdown_to_docx (scenario_env scenario_A) notes_md
     notes_docx (scenario_config 2 True) (Some stale_metrics) 0))) = 1 \<and>
   successful_conversions (metrics (snd (convert_markdown_to_docx (scenario_env scenario_A)
     notes_md notes_docx (scenario_config 2 True) (Some stale_metrics) 0))) = 1"
proof -
  let ?run = "convert_markdown_to_docx (scenario_env scenario_A) notes_md notes_docx
     (scenario_config 2 True) (Some stale_metrics) 0"
  have run: "?run = (Inr (success_result
       (notes_docx,
        \<lparr>source_format = ''markdown'', target_format = ''docx'', conversion_time = 0,
         output_size = 400, input_size = 500\<rparr>)
       ''Successfully converted /docs/notes.md to DOCX''), snd ?run)"
    by (simp add: run_simps scenario_defs)
  from success_keeps_errors [OF run]
  have "errors (metrics (snd ?run)) = errors stale_metrics"
    "failed_conversions (metrics (snd ?run)) = failed_conversions stale_metrics"
    "successful_conversions (metrics (snd ?run)) = successful_conversions stale_metrics + 1"
    by (simp_all add: metrics_object_def)
  moreover have "fst ?run = Inr (success_result
       (notes_docx,
        \<lparr>source_format = ''markdown'', target_format = ''docx'', conversion_time = 0,
         output_size = 400, input_size = 500\<rparr>)
       ''Successfully converted /docs/notes.md to DOCX'')"
    using run by (metis fst_conv)
  ultimately show ?thesis by (simp add: stale_metrics_def)
qed

end
